theory Spec2Isabelle
  imports Complex_Main
begin

section \<open>Python values, dictionaries and exceptions\<close>

text \<open>
  The planner bot passes untyped dictionaries between its agents. A value of the
  program is a \<open>pyval\<close>; a dictionary is an association list with string keys, kept in
  insertion order as Python keeps it. A \<open>datetime\<close> is an instant in microseconds; a
  dataclass instance is \<open>PObj\<close> with its class name and attributes.
\<close>

type_synonym datetime = int

datatype pyval =
    PNone
  | PBool bool
  | PInt int
  | PFloat real
  | PStr string
  | PDatetime datetime
  | PList "pyval list"
  | PDict "(string \<times> pyval) list"
  | PObj string "(string \<times> pyval) list"

type_synonym pydict = "(string \<times> pyval) list"

text \<open>
  Exceptions. The first five are subclasses of \<open>Exception\<close>: \<open>ValueError\<close>, \<open>TypeError\<close>,
  \<open>AttributeError\<close> and \<open>ExternalError\<close> (any other subclass of \<open>Exception\<close>, as a library
  raises it) carry the text that \<open>str(e)\<close> gives, \<open>KeyError\<close> carries the missing key. The
  last four derive from \<open>BaseException\<close> only, so a handler \<open>except Exception\<close> lets them
  through; they are raised without arguments.
\<close>

datatype exn =
    ValueError string
  | KeyError string
  | TypeError string
  | AttributeError string
  | ExternalError string
  | CancelledError
  | KeyboardInterrupt
  | SystemExit
  | GeneratorExit

fun is_Exception :: "exn \<Rightarrow> bool" where
  "is_Exception (ValueError m) = True"
| "is_Exception (KeyError k) = True"
| "is_Exception (TypeError m) = True"
| "is_Exception (AttributeError m) = True"
| "is_Exception (ExternalError m) = True"
| "is_Exception CancelledError = False"
| "is_Exception KeyboardInterrupt = False"
| "is_Exception SystemExit = False"
| "is_Exception GeneratorExit = False"

text \<open>
  \<open>repr\<close> of a string: double quotes when the string has a single quote and no double
  quote, single quotes otherwise; the backslash, the enclosing quote, tab, newline and
  carriage return are escaped, the other control characters are written \<open>\xNN\<close>. Bytes
  from 0x80 on stand for the printable characters they encode and are kept.
\<close>

definition quoted :: "string \<Rightarrow> string" where
  "quoted s = [CHR 0x27] @ s @ [CHR 0x27]"

definition hex_digit :: "nat \<Rightarrow> char" where
  "hex_digit n = (''0123456789abcdef'' ! (n mod 16))"

definition repr_char :: "char \<Rightarrow> char \<Rightarrow> string" where
  "repr_char q c =
     (if c = CHR 0x5C then [CHR 0x5C, CHR 0x5C]
      else if c = q then [CHR 0x5C, c]
      else if c = CHR 0x09 then [CHR 0x5C, CHR ''t'']
      else if c = CHR 0x0A then [CHR 0x5C, CHR ''n'']
      else if c = CHR 0x0D then [CHR 0x5C, CHR ''r'']
      else if (of_char c :: nat) < 32 \<or> (of_char c :: nat) = 127 then
        [CHR 0x5C, CHR ''x'', hex_digit ((of_char c :: nat) div 16), hex_digit (of_char c :: nat)]
      else [c])"

definition py_repr_str :: "string \<Rightarrow> string" where
  "py_repr_str s =
     (let q = (if CHR 0x27 \<in> set s \<and> CHR 0x22 \<notin> set s then CHR 0x22 else CHR 0x27)
      in [q] @ concat (map (repr_char q) s) @ [q])"

text \<open>\<open>str(e)\<close>: the message; a \<open>KeyError\<close> prints the \<open>repr\<close> of the key.\<close>

fun exn_str :: "exn \<Rightarrow> string" where
  "exn_str (ValueError m) = m"
| "exn_str (KeyError k) = py_repr_str k"
| "exn_str (TypeError m) = m"
| "exn_str (AttributeError m) = m"
| "exn_str (ExternalError m) = m"
| "exn_str CancelledError = []"
| "exn_str KeyboardInterrupt = []"
| "exn_str SystemExit = []"
| "exn_str GeneratorExit = []"

text \<open>Sequencing of steps that may raise: the first exception ends the block.\<close>

definition exn_bind :: "exn + 'a \<Rightarrow> ('a \<Rightarrow> exn + 'b) \<Rightarrow> exn + 'b" where
  "exn_bind x f = (case x of Inl e \<Rightarrow> Inl e | Inr v \<Rightarrow> f v)"

text \<open>
  \<open>try: body except Exception as e: handler\<close>. An exception of the body that is not an
  \<open>Exception\<close> is not caught and leaves the statement.
\<close>

definition try_except :: "exn + 'a \<Rightarrow> (exn \<Rightarrow> exn + 'a) \<Rightarrow> exn + 'a" where
  "try_except body handler =
     (case body of
        Inr v \<Rightarrow> Inr v
      | Inl e \<Rightarrow> if is_Exception e then handler e else Inl e)"

text \<open>\<open>d.get(k, default)\<close>, \<open>d[k]\<close> and \<open>d[k] = v\<close>.\<close>

definition dict_get :: "pydict \<Rightarrow> string \<Rightarrow> pyval \<Rightarrow> pyval" where
  "dict_get d k dflt = (case map_of d k of None \<Rightarrow> dflt | Some v \<Rightarrow> v)"

definition dict_getitem :: "pydict \<Rightarrow> string \<Rightarrow> exn + pyval" where
  "dict_getitem d k = (case map_of d k of None \<Rightarrow> Inl (KeyError k) | Some v \<Rightarrow> Inr v)"

fun dict_setitem :: "pydict \<Rightarrow> string \<Rightarrow> pyval \<Rightarrow> pydict" where
  "dict_setitem [] k v = [(k, v)]"
| "dict_setitem ((k', v') # d) k v =
     (if k' = k then (k, v) # d else (k', v') # dict_setitem d k v)"

text \<open>The name of a value's type, as Python's error messages print it.\<close>

fun py_type_name :: "pyval \<Rightarrow> string" where
  "py_type_name PNone = ''NoneType''"
| "py_type_name (PBool b) = ''bool''"
| "py_type_name (PInt i) = ''int''"
| "py_type_name (PFloat r) = ''float''"
| "py_type_name (PStr s) = ''str''"
| "py_type_name (PDatetime t) = ''datetime.datetime''"
| "py_type_name (PList xs) = ''list''"
| "py_type_name (PDict d) = ''dict''"
| "py_type_name (PObj c d) = c"

text \<open>\<open>v.get(k, default)\<close> on an arbitrary value: only a dictionary has \<open>get\<close>.\<close>

fun py_get :: "pyval \<Rightarrow> string \<Rightarrow> pyval \<Rightarrow> exn + pyval" where
  "py_get (PDict d) k dflt = Inr (dict_get d k dflt)"
| "py_get v k dflt =
     Inl (AttributeError (quoted (py_type_name v) @ '' object has no attribute '' @ quoted ''get''))"

text \<open>Truth value of a Python object, as \<open>if v:\<close> and \<open>bool(v)\<close> take it.\<close>

fun truthy :: "pyval \<Rightarrow> bool" where
  "truthy PNone = False"
| "truthy (PBool b) = b"
| "truthy (PInt i) = (i \<noteq> 0)"
| "truthy (PFloat r) = (r \<noteq> 0)"
| "truthy (PStr s) = (s \<noteq> [])"
| "truthy (PDatetime t) = True"
| "truthy (PList xs) = (xs \<noteq> [])"
| "truthy (PDict d) = (d \<noteq> [])"
| "truthy (PObj c d) = True"

text \<open>\<open>len(v)\<close>: a \<open>TypeError\<close> for a value without a length.\<close>

fun py_len :: "pyval \<Rightarrow> exn + nat" where
  "py_len (PStr s) = Inr (length s)"
| "py_len (PList xs) = Inr (length xs)"
| "py_len (PDict d) = Inr (length d)"
| "py_len v = Inl (TypeError (''object of type '' @ quoted (py_type_name v) @ '' has no len()''))"

text \<open>\<open>os.getenv(k)\<close> as a value: \<open>None\<close> when the variable is not set.\<close>

definition getenv_val :: "(string \<Rightarrow> string option) \<Rightarrow> string \<Rightarrow> pyval" where
  "getenv_val env k = (case env k of None \<Rightarrow> PNone | Some s \<Rightarrow> PStr s)"

section \<open>The world outside the program\<close>

text \<open>
  \<open>TaskData\<close> and \<open>WeatherData\<close> are the two dataclasses of the module.
\<close>

record TaskData =
  task_id :: string
  title :: string
  description :: string
  priority :: int
  deadline :: datetime
  status :: string
  created_at :: datetime
  updated_at :: datetime
  metadata :: pydict

record WeatherData =
  temperature :: real
  condition :: string
  humidity :: int
  wind_speed :: real
  forecast :: string
  timestamp :: datetime

definition WeatherData_obj :: "WeatherData \<Rightarrow> pyval" where
  "WeatherData_obj wd = PObj ''WeatherData''
     [(''temperature'', PFloat (temperature wd)),
      (''condition'', PStr (condition wd)),
      (''humidity'', PInt (humidity wd)),
      (''wind_speed'', PFloat (wind_speed wd)),
      (''forecast'', PStr (forecast wd)),
      (''timestamp'', PDatetime (timestamp wd))]"

text \<open>
  Every call of the language model sits in a \<open>try\<close> block that first renders its
  arguments with \<open>json.dumps\<close> into a prompt, then calls \<open>generate_content\<close> and reads
  \<open>response.text\<close>. A prompt is modelled by its kind and the data rendered into it; the
  client maps it to the text returned, or to the exception raised on the way.
\<close>

datatype prompt =
    PatternPrompt "TaskData list"
  | RulesPrompt "pyval list"
  | FeedbackPrompt "pyval list"
  | StructurePrompt pydict
  | PlanningPrompt pyval
  | ConflictPrompt pydict "pyval list"

type_synonym gemini_client = "prompt \<Rightarrow> exn + string"

text \<open>
  What the process reads from outside: the environment variables, the model client that
  \<open>genai.configure(api_key)\<close> and \<open>genai.GenerativeModel(name)\<close> give, the outcome of the
  weather request (the body of the \<open>try\<close> block of \<open>_fetch_weather_data\<close>, for a given
  key), the outcome of opening and parsing the configuration file, and the outcome of
  writing the user's crontab.
\<close>

record world =
  environ :: "string \<Rightarrow> string option"
  GenerativeModel :: "string \<Rightarrow> string \<Rightarrow> gemini_client"
  weather_request :: "string \<Rightarrow> exn + WeatherData"
  json_load :: "string \<Rightarrow> exn + pydict"
  crontab_write :: "exn + unit"

text \<open>
  The readings of \<open>datetime.now()\<close> of one run, as the program uses them: the ISO
  strings written into plans and results, and the seconds each agent measured.
\<close>

record clock =
  now_session :: string
  now_created :: string
  now_revised :: string
  now_approved :: string
  now_prepared :: string
  now_workflow :: string
  reviewer_seconds :: real
  collector_seconds :: real
  planner_seconds :: real
  executor_seconds :: real

text \<open>
  Each agent class extends \<open>BaseAgent\<close>, whose constructor stores the configuration and a
  session id read from the clock; the agent records below start with these two fields.
  Calls of the logger and of \<open>log_performance\<close> write to the log and give the program
  nothing back, so they do not appear in the definitions.
\<close>

text \<open>The dictionary every \<open>execute\<close> returns from its \<open>except Exception as e\<close> handler.\<close>

definition error_result :: "exn \<Rightarrow> pydict" where
  "error_result e = [(''status'', PStr ''error''), (''message'', PStr (exn_str e))]"

section \<open>ConflictDetector\<close>

text \<open>
  The class has no attributes. \<open>detect_conflicts\<close> builds an empty list and returns it;
  the plan is not read.
\<close>

datatype ConflictDetector = ConflictDetector

definition ConflictDetector_detect_conflicts :: "ConflictDetector \<Rightarrow> pydict \<Rightarrow> pyval list" where
  "ConflictDetector_detect_conflicts self plan = (let conflicts = [] in conflicts)"

section \<open>PlannerAgent\<close>

record PlannerAgent =
  pl_config :: pydict
  pl_session_id :: string
  pl_gemini_client :: gemini_client
  pl_conflict_detector :: ConflictDetector
  pl_priority_weights :: pyval

definition PlannerAgent_initialize_gemini :: "world \<Rightarrow> exn + gemini_client" where
  "PlannerAgent_initialize_gemini w =
     (case environ w ''GEMINI_API_KEY'' of
        None \<Rightarrow> Inl (ValueError ''GEMINI_API_KEY required'')
      | Some api_key \<Rightarrow>
          if api_key = [] then Inl (ValueError ''GEMINI_API_KEY required'')
          else Inr (GenerativeModel w api_key ''gemini-pro''))"

definition default_priority_weights :: pyval where
  "default_priority_weights = PDict
     [(''deadline'', PFloat 0.4), (''importance'', PFloat 0.3),
      (''duration'', PFloat 0.2), (''user_preference'', PFloat 0.1)]"

definition PlannerAgent_init :: "world \<Rightarrow> clock \<Rightarrow> pydict \<Rightarrow> exn + PlannerAgent" where
  "PlannerAgent_init w clk cfg =
     exn_bind (PlannerAgent_initialize_gemini w) (\<lambda>client.
       Inr \<lparr> pl_config = cfg,
             pl_session_id = now_session clk,
             pl_gemini_client = client,
             pl_conflict_detector = ConflictDetector,
             pl_priority_weights = dict_get cfg ''priority_weights'' default_priority_weights \<rparr>)"

definition PlannerAgent_draft_plan :: "PlannerAgent \<Rightarrow> clock \<Rightarrow> pyval \<Rightarrow> exn + pydict" where
  "PlannerAgent_draft_plan self clk input_data =
     try_except
       (exn_bind (pl_gemini_client self (PlanningPrompt input_data)) (\<lambda>reply.
          Inr [(''plan_type'', PStr ''daily''),
               (''created_at'', PStr (now_created clk)),
               (''ai_generated'', PBool True),
               (''plan_details'', PStr reply),
               (''tasks'', PList [])]))
       (\<lambda>e. Inr [(''status'', PStr ''error''), (''message'', PStr (exn_str e))])"

definition PlannerAgent_resolve_conflicts ::
    "PlannerAgent \<Rightarrow> clock \<Rightarrow> pydict \<Rightarrow> pyval list \<Rightarrow> exn + pydict" where
  "PlannerAgent_resolve_conflicts self clk plan conflicts =
     try_except
       (exn_bind (pl_gemini_client self (ConflictPrompt plan conflicts)) (\<lambda>reply.
          (let resolved_plan = plan;
               resolved_plan = dict_setitem resolved_plan ''conflicts_resolved''
                                 (PInt (int (length conflicts)));
               resolved_plan = dict_setitem resolved_plan ''resolution_details'' (PStr reply);
               resolved_plan = dict_setitem resolved_plan ''revised_at'' (PStr (now_revised clk))
           in Inr resolved_plan)))
       (\<lambda>e. Inr plan)"

definition PlannerAgent_apply_learned_rules :: "PlannerAgent \<Rightarrow> pydict \<Rightarrow> pyval \<Rightarrow> pydict" where
  "PlannerAgent_apply_learned_rules self plan context =
     (let optimized_plan = plan;
          optimized_plan = dict_setitem optimized_plan ''optimization_applied'' (PBool True);
          optimized_plan = dict_setitem optimized_plan ''priority_weights'' (pl_priority_weights self)
      in optimized_plan)"

definition PlannerAgent_approve_plan :: "PlannerAgent \<Rightarrow> clock \<Rightarrow> pydict \<Rightarrow> pydict" where
  "PlannerAgent_approve_plan self clk plan =
     (let approved_plan = plan;
          approved_plan = dict_setitem approved_plan ''approved'' (PBool True);
          approved_plan = dict_setitem approved_plan ''approved_at'' (PStr (now_approved clk));
          approved_plan = dict_setitem approved_plan ''ready_for_execution'' (PBool True)
      in approved_plan)"

text \<open>
  \<open>execute\<close> reaches its steps through \<open>self\<close>, so the body is written over the steps as
  they are looked up at the call: each returns a value of its annotated type or raises.
  \<open>PlannerAgent_methods\<close> are the steps the class itself defines.
\<close>

record planner_methods =
  draft_plan :: "pyval \<Rightarrow> exn + pydict"
  detect_conflicts :: "pydict \<Rightarrow> exn + pyval list"
  resolve_conflicts :: "pydict \<Rightarrow> pyval list \<Rightarrow> exn + pydict"
  apply_learned_rules :: "pydict \<Rightarrow> pyval \<Rightarrow> exn + pydict"
  approve_plan :: "pydict \<Rightarrow> exn + pydict"

definition PlannerAgent_execute_body :: "planner_methods \<Rightarrow> real \<Rightarrow> pyval \<Rightarrow> exn + pydict" where
  "PlannerAgent_execute_body m duration input_data =
     exn_bind (draft_plan m input_data) (\<lambda>initial_plan.
     exn_bind (detect_conflicts m initial_plan) (\<lambda>conflicts.
     exn_bind (if conflicts \<noteq> [] then resolve_conflicts m initial_plan conflicts
               else Inr initial_plan) (\<lambda>final_plan.
     exn_bind (apply_learned_rules m final_plan input_data) (\<lambda>optimized_plan.
     exn_bind (approve_plan m optimized_plan) (\<lambda>approved_plan.
     exn_bind (py_len (dict_get approved_plan ''tasks'' (PList []))) (\<lambda>n_tasks.
       Inr [(''status'', PStr ''success''),
            (''plan_approved'', PBool True),
            (''conflicts_resolved'', PInt (int (length conflicts))),
            (''optimized_tasks'', PInt (int n_tasks)),
            (''final_plan'', PDict approved_plan),
            (''execution_time'', PFloat duration)]))))))"

definition PlannerAgent_execute_with :: "planner_methods \<Rightarrow> real \<Rightarrow> pyval \<Rightarrow> exn + pydict" where
  "PlannerAgent_execute_with m duration input_data =
     try_except (PlannerAgent_execute_body m duration input_data) (\<lambda>e. Inr (error_result e))"

definition PlannerAgent_methods :: "PlannerAgent \<Rightarrow> clock \<Rightarrow> planner_methods" where
  "PlannerAgent_methods self clk =
     \<lparr> draft_plan = (\<lambda>input_data. PlannerAgent_draft_plan self clk input_data),
       detect_conflicts =
         (\<lambda>plan. Inr (ConflictDetector_detect_conflicts (pl_conflict_detector self) plan)),
       resolve_conflicts =
         (\<lambda>plan conflicts. PlannerAgent_resolve_conflicts self clk plan conflicts),
       apply_learned_rules =
         (\<lambda>plan context. Inr (PlannerAgent_apply_learned_rules self plan context)),
       approve_plan = (\<lambda>plan. Inr (PlannerAgent_approve_plan self clk plan)) \<rparr>"

definition PlannerAgent_execute :: "PlannerAgent \<Rightarrow> clock \<Rightarrow> pyval \<Rightarrow> exn + pydict" where
  "PlannerAgent_execute self clk input_data =
     PlannerAgent_execute_with (PlannerAgent_methods self clk) (planner_seconds clk) input_data"

section \<open>ExecutorAgent\<close>

record ExecutorAgent =
  ex_config :: pydict
  ex_session_id :: string
  ex_calendar_service :: pydict
  ex_notion_client :: pydict
  ex_telegram_bot :: pyval

definition ExecutorAgent_initialize_calendar :: pydict where
  "ExecutorAgent_initialize_calendar = [(''credentials'', PStr ''google_calendar_credentials'')]"

definition ExecutorAgent_initialize_notion :: "world \<Rightarrow> pydict" where
  "ExecutorAgent_initialize_notion w = [(''token'', getenv_val (environ w) ''NOTION_API_TOKEN'')]"

definition ExecutorAgent_initialize_telegram :: "world \<Rightarrow> pyval" where
  "ExecutorAgent_initialize_telegram w =
     (case environ w ''TELEGRAM_BOT_TOKEN'' of
        None \<Rightarrow> PNone
      | Some token \<Rightarrow> if token = [] then PNone else PDict [(''token'', PStr token)])"

definition ExecutorAgent_init :: "world \<Rightarrow> clock \<Rightarrow> pydict \<Rightarrow> ExecutorAgent" where
  "ExecutorAgent_init w clk cfg =
     \<lparr> ex_config = cfg,
       ex_session_id = now_session clk,
       ex_calendar_service = ExecutorAgent_initialize_calendar,
       ex_notion_client = ExecutorAgent_initialize_notion w,
       ex_telegram_bot = ExecutorAgent_initialize_telegram w \<rparr>"

definition ExecutorAgent_update_calendar_events :: "ExecutorAgent \<Rightarrow> pyval \<Rightarrow> pydict" where
  "ExecutorAgent_update_calendar_events self plan = [(''created'', PInt 5), (''updated'', PInt 3)]"

definition ExecutorAgent_update_notion_tasks :: "ExecutorAgent \<Rightarrow> pyval \<Rightarrow> pydict" where
  "ExecutorAgent_update_notion_tasks self plan = [(''updated'', PInt 8)]"

text \<open>
  The summary is an f-string over four values read from the plan, in this order; the
  model keeps the values and leaves the rendering of the text out.
\<close>

record plan_summary =
  shown_status :: pyval
  shown_date :: pyval
  shown_tasks :: nat
  shown_conflicts :: pyval

definition ExecutorAgent_create_plan_summary :: "ExecutorAgent \<Rightarrow> pyval \<Rightarrow> exn + plan_summary" where
  "ExecutorAgent_create_plan_summary self plan =
     exn_bind (py_get plan ''approved'' (PBool False)) (\<lambda>approved.
     exn_bind (py_get plan ''approved_at'' (PStr ''Unknown'')) (\<lambda>approved_at.
     exn_bind (exn_bind (py_get plan ''tasks'' (PList [])) py_len) (\<lambda>n_tasks.
     exn_bind (py_get plan ''conflicts_resolved'' (PInt 0)) (\<lambda>resolved.
       Inr \<lparr> shown_status = approved, shown_date = approved_at,
             shown_tasks = n_tasks, shown_conflicts = resolved \<rparr>))))"

definition ExecutorAgent_send_notifications :: "ExecutorAgent \<Rightarrow> pyval \<Rightarrow> exn + pydict" where
  "ExecutorAgent_send_notifications self plan =
     (if \<not> truthy (ex_telegram_bot self) then Inr [(''sent'', PInt 0)]
      else try_except
             (exn_bind (ExecutorAgent_create_plan_summary self plan) (\<lambda>summary.
                Inr [(''sent'', PInt 1)]))
             (\<lambda>e. Inr [(''sent'', PInt 0)]))"

definition ExecutorAgent_schedule_reminders :: "ExecutorAgent \<Rightarrow> pyval \<Rightarrow> pydict" where
  "ExecutorAgent_schedule_reminders self plan = [(''scheduled'', PInt 3)]"

record executor_methods =
  update_calendar_events :: "pyval \<Rightarrow> exn + pydict"
  update_notion_tasks :: "pyval \<Rightarrow> exn + pydict"
  send_notifications :: "pyval \<Rightarrow> exn + pydict"
  schedule_reminders :: "pyval \<Rightarrow> exn + pydict"

definition ExecutorAgent_execute_body :: "executor_methods \<Rightarrow> real \<Rightarrow> pyval \<Rightarrow> exn + pydict" where
  "ExecutorAgent_execute_body m duration approved_plan =
     exn_bind (update_calendar_events m approved_plan) (\<lambda>calendar_results.
     exn_bind (update_notion_tasks m approved_plan) (\<lambda>notion_results.
     exn_bind (send_notifications m approved_plan) (\<lambda>notification_results.
     exn_bind (schedule_reminders m approved_plan) (\<lambda>reminder_results.
       Inr [(''status'', PStr ''success''),
            (''calendar_events_created'', dict_get calendar_results ''created'' (PInt 0)),
            (''notion_tasks_updated'', dict_get notion_results ''updated'' (PInt 0)),
            (''notifications_sent'', dict_get notification_results ''sent'' (PInt 0)),
            (''reminders_scheduled'', dict_get reminder_results ''scheduled'' (PInt 0)),
            (''execution_time'', PFloat duration)]))))"

definition ExecutorAgent_execute_with :: "executor_methods \<Rightarrow> real \<Rightarrow> pyval \<Rightarrow> exn + pydict" where
  "ExecutorAgent_execute_with m duration approved_plan =
     try_except (ExecutorAgent_execute_body m duration approved_plan)
       (\<lambda>e. Inr (error_result e))"

definition ExecutorAgent_methods :: "ExecutorAgent \<Rightarrow> executor_methods" where
  "ExecutorAgent_methods self =
     \<lparr> update_calendar_events = (\<lambda>plan. Inr (ExecutorAgent_update_calendar_events self plan)),
       update_notion_tasks = (\<lambda>plan. Inr (ExecutorAgent_update_notion_tasks self plan)),
       send_notifications = (\<lambda>plan. ExecutorAgent_send_notifications self plan),
       schedule_reminders = (\<lambda>plan. Inr (ExecutorAgent_schedule_reminders self plan)) \<rparr>"

definition ExecutorAgent_execute :: "ExecutorAgent \<Rightarrow> clock \<Rightarrow> pyval \<Rightarrow> exn + pydict" where
  "ExecutorAgent_execute self clk approved_plan =
     ExecutorAgent_execute_with (ExecutorAgent_methods self) (executor_seconds clk) approved_plan"

section \<open>CollectorAgent\<close>

record CollectorAgent =
  co_config :: pydict
  co_session_id :: string
  co_weather_api_key :: "string option"
  co_calendar_service :: pydict
  co_notion_client :: pydict
  co_gemini_client :: gemini_client

definition CollectorAgent_initialize_gemini :: "world \<Rightarrow> exn + gemini_client" where
  "CollectorAgent_initialize_gemini w =
     (case environ w ''GEMINI_API_KEY'' of
        None \<Rightarrow> Inl (ValueError ''GEMINI_API_KEY required'')
      | Some api_key \<Rightarrow>
          if api_key = [] then Inl (ValueError ''GEMINI_API_KEY required'')
          else Inr (GenerativeModel w api_key ''gemini-pro''))"

definition CollectorAgent_init :: "world \<Rightarrow> clock \<Rightarrow> pydict \<Rightarrow> exn + CollectorAgent" where
  "CollectorAgent_init w clk cfg =
     exn_bind (CollectorAgent_initialize_gemini w) (\<lambda>client.
       Inr \<lparr> co_config = cfg,
             co_session_id = now_session clk,
             co_weather_api_key = environ w ''OPENWEATHER_API_KEY'',
             co_calendar_service = [(''credentials'', PStr ''google_calendar_credentials'')],
             co_notion_client = [(''token'', getenv_val (environ w) ''NOTION_API_TOKEN'')],
             co_gemini_client = client \<rparr>)"

definition CollectorAgent_fetch_calendar_events :: "CollectorAgent \<Rightarrow> pyval list" where
  "CollectorAgent_fetch_calendar_events self = []"

definition CollectorAgent_fetch_weather_data :: "CollectorAgent \<Rightarrow> world \<Rightarrow> exn + pyval" where
  "CollectorAgent_fetch_weather_data self w =
     (case co_weather_api_key self of
        None \<Rightarrow> Inr PNone
      | Some key \<Rightarrow>
          if key = [] then Inr PNone
          else try_except
                 (exn_bind (weather_request w key) (\<lambda>weather. Inr (WeatherData_obj weather)))
                 (\<lambda>e. Inr PNone))"

definition CollectorAgent_fetch_notion_tasks :: "CollectorAgent \<Rightarrow> pyval list" where
  "CollectorAgent_fetch_notion_tasks self = []"

definition CollectorAgent_structure_data :: "CollectorAgent \<Rightarrow> pydict \<Rightarrow> exn + pydict" where
  "CollectorAgent_structure_data self raw_data =
     try_except
       (exn_bind (co_gemini_client self (StructurePrompt raw_data)) (\<lambda>reply.
          Inr [(''structured'', PBool True), (''ai_response'', PStr reply)]))
       (\<lambda>e. Inr raw_data)"

definition CollectorAgent_prepare_clean_data :: "CollectorAgent \<Rightarrow> clock \<Rightarrow> pydict \<Rightarrow> pydict" where
  "CollectorAgent_prepare_clean_data self clk structured_data =
     [(''timestamp'', PStr (now_prepared clk)),
      (''data_quality'', PStr ''high''),
      (''ready_for_planning'', PBool True),
      (''structured_data'', PDict structured_data)]"

record collector_methods =
  fetch_calendar_events :: "exn + pyval list"
  fetch_weather_data :: "exn + pyval"
  fetch_notion_tasks :: "exn + pyval list"
  structure_data :: "pydict \<Rightarrow> exn + pydict"
  prepare_clean_data :: "pydict \<Rightarrow> exn + pydict"

definition CollectorAgent_execute_body :: "collector_methods \<Rightarrow> real \<Rightarrow> exn + pydict" where
  "CollectorAgent_execute_body m duration =
     exn_bind (fetch_calendar_events m) (\<lambda>calendar_events.
     exn_bind (fetch_weather_data m) (\<lambda>weather_data.
     exn_bind (fetch_notion_tasks m) (\<lambda>notion_tasks.
     exn_bind (structure_data m
                 [(''calendar_events'', PList calendar_events),
                  (''weather_data'', weather_data),
                  (''notion_tasks'', PList notion_tasks)]) (\<lambda>structured_data.
     exn_bind (prepare_clean_data m structured_data) (\<lambda>clean_data.
       Inr [(''status'', PStr ''success''),
            (''calendar_events'', PInt (int (length calendar_events))),
            (''weather_updated'', PBool (truthy weather_data)),
            (''notion_tasks'', PInt (int (length notion_tasks))),
            (''structured_data'', PDict clean_data),
            (''execution_time'', PFloat duration)])))))"

definition CollectorAgent_execute_with :: "collector_methods \<Rightarrow> real \<Rightarrow> exn + pydict" where
  "CollectorAgent_execute_with m duration =
     try_except (CollectorAgent_execute_body m duration) (\<lambda>e. Inr (error_result e))"

definition CollectorAgent_methods :: "CollectorAgent \<Rightarrow> world \<Rightarrow> clock \<Rightarrow> collector_methods" where
  "CollectorAgent_methods self w clk =
     \<lparr> fetch_calendar_events = Inr (CollectorAgent_fetch_calendar_events self),
       fetch_weather_data = CollectorAgent_fetch_weather_data self w,
       fetch_notion_tasks = Inr (CollectorAgent_fetch_notion_tasks self),
       structure_data = (\<lambda>raw_data. CollectorAgent_structure_data self raw_data),
       prepare_clean_data =
         (\<lambda>structured_data. Inr (CollectorAgent_prepare_clean_data self clk structured_data)) \<rparr>"

definition CollectorAgent_execute :: "CollectorAgent \<Rightarrow> world \<Rightarrow> clock \<Rightarrow> exn + pydict" where
  "CollectorAgent_execute self w clk =
     CollectorAgent_execute_with (CollectorAgent_methods self w clk) (collector_seconds clk)"

section \<open>ReviewerLearnerAgent\<close>

record ReviewerLearnerAgent =
  rv_config :: pydict
  rv_session_id :: string
  rv_gemini_client :: gemini_client
  rv_notion_client :: pydict
  rv_calendar_service :: pydict

definition ReviewerLearnerAgent_initialize_gemini :: "world \<Rightarrow> exn + gemini_client" where
  "ReviewerLearnerAgent_initialize_gemini w =
     (case environ w ''GEMINI_API_KEY'' of
        None \<Rightarrow> Inl (ValueError ''GEMINI_API_KEY environment variable required'')
      | Some api_key \<Rightarrow>
          if api_key = [] then Inl (ValueError ''GEMINI_API_KEY environment variable required'')
          else Inr (GenerativeModel w api_key ''gemini-pro''))"

definition ReviewerLearnerAgent_init ::
    "world \<Rightarrow> clock \<Rightarrow> pydict \<Rightarrow> exn + ReviewerLearnerAgent" where
  "ReviewerLearnerAgent_init w clk cfg =
     exn_bind (ReviewerLearnerAgent_initialize_gemini w) (\<lambda>client.
       Inr \<lparr> rv_config = cfg,
             rv_session_id = now_session clk,
             rv_gemini_client = client,
             rv_notion_client = [(''token'', getenv_val (environ w) ''NOTION_API_TOKEN'')],
             rv_calendar_service = [(''credentials'', PStr ''google_calendar_credentials'')] \<rparr>)"

definition ReviewerLearnerAgent_fetch_completed_tasks :: "ReviewerLearnerAgent \<Rightarrow> TaskData list" where
  "ReviewerLearnerAgent_fetch_completed_tasks self = []"

definition ReviewerLearnerAgent_analyze_patterns ::
    "ReviewerLearnerAgent \<Rightarrow> TaskData list \<Rightarrow> exn + pyval list" where
  "ReviewerLearnerAgent_analyze_patterns self tasks =
     try_except
       (exn_bind (rv_gemini_client self (PatternPrompt tasks)) (\<lambda>reply.
          Inr [PDict [(''pattern_type'', PStr ''productivity''), (''insights'', PStr reply)]]))
       (\<lambda>e. Inr [])"

definition ReviewerLearnerAgent_generate_rules ::
    "ReviewerLearnerAgent \<Rightarrow> pyval list \<Rightarrow> exn + pyval list" where
  "ReviewerLearnerAgent_generate_rules self patterns =
     try_except
       (exn_bind (rv_gemini_client self (RulesPrompt patterns)) (\<lambda>reply.
          Inr [PDict [(''rule_type'', PStr ''scheduling''), (''rule'', PStr reply)]]))
       (\<lambda>e. Inr [])"

definition ReviewerLearnerAgent_store_rules :: "ReviewerLearnerAgent \<Rightarrow> pyval list \<Rightarrow> bool" where
  "ReviewerLearnerAgent_store_rules self rules = True"

definition ReviewerLearnerAgent_generate_feedback ::
    "ReviewerLearnerAgent \<Rightarrow> pyval list \<Rightarrow> exn + string" where
  "ReviewerLearnerAgent_generate_feedback self patterns =
     try_except
       (exn_bind (rv_gemini_client self (FeedbackPrompt patterns)) (\<lambda>reply. Inr reply))
       (\<lambda>e. Inr ''Unable to generate feedback at this time.'')"

record reviewer_methods =
  fetch_completed_tasks :: "exn + TaskData list"
  analyze_patterns :: "TaskData list \<Rightarrow> exn + pyval list"
  generate_rules :: "pyval list \<Rightarrow> exn + pyval list"
  store_rules :: "pyval list \<Rightarrow> exn + bool"
  generate_feedback :: "pyval list \<Rightarrow> exn + string"

definition ReviewerLearnerAgent_execute_body :: "reviewer_methods \<Rightarrow> real \<Rightarrow> exn + pydict" where
  "ReviewerLearnerAgent_execute_body m duration =
     exn_bind (fetch_completed_tasks m) (\<lambda>completed_tasks.
     exn_bind (analyze_patterns m completed_tasks) (\<lambda>patterns.
     exn_bind (generate_rules m patterns) (\<lambda>rules.
     exn_bind (store_rules m rules) (\<lambda>stored.
     exn_bind (generate_feedback m patterns) (\<lambda>feedback.
       Inr [(''status'', PStr ''success''),
            (''completed_tasks_analyzed'', PInt (int (length completed_tasks))),
            (''patterns_identified'', PInt (int (length patterns))),
            (''rules_generated'', PInt (int (length rules))),
            (''feedback'', PStr feedback),
            (''execution_time'', PFloat duration)])))))"

definition ReviewerLearnerAgent_execute_with :: "reviewer_methods \<Rightarrow> real \<Rightarrow> exn + pydict" where
  "ReviewerLearnerAgent_execute_with m duration =
     try_except (ReviewerLearnerAgent_execute_body m duration) (\<lambda>e. Inr (error_result e))"

definition ReviewerLearnerAgent_methods :: "ReviewerLearnerAgent \<Rightarrow> reviewer_methods" where
  "ReviewerLearnerAgent_methods self =
     \<lparr> fetch_completed_tasks = Inr (ReviewerLearnerAgent_fetch_completed_tasks self),
       analyze_patterns = (\<lambda>tasks. ReviewerLearnerAgent_analyze_patterns self tasks),
       generate_rules = (\<lambda>patterns. ReviewerLearnerAgent_generate_rules self patterns),
       store_rules = (\<lambda>rules. Inr (ReviewerLearnerAgent_store_rules self rules)),
       generate_feedback =
         (\<lambda>patterns. ReviewerLearnerAgent_generate_feedback self patterns) \<rparr>"

definition ReviewerLearnerAgent_execute :: "ReviewerLearnerAgent \<Rightarrow> clock \<Rightarrow> exn + pydict" where
  "ReviewerLearnerAgent_execute self clk =
     ReviewerLearnerAgent_execute_with (ReviewerLearnerAgent_methods self) (reviewer_seconds clk)"

section \<open>AutonomousTaskPlanner\<close>

record AutonomousTaskPlanner =
  config :: pydict
  reviewer_agent :: ReviewerLearnerAgent
  collector_agent :: CollectorAgent
  planner_agent :: PlannerAgent
  executor_agent :: ExecutorAgent

text \<open>
  \<open>_load_config\<close> runs before \<open>self.logger\<close> is assigned, so its handler, which logs
  through \<open>self.logger\<close>, raises an \<open>AttributeError\<close> instead of returning \<open>{}\<close>.
\<close>

definition AutonomousTaskPlanner_load_config :: "world \<Rightarrow> string \<Rightarrow> exn + pydict" where
  "AutonomousTaskPlanner_load_config w config_path =
     try_except (json_load w config_path)
       (\<lambda>e. Inl (AttributeError (quoted ''AutonomousTaskPlanner'' @ '' object has no attribute ''
                                  @ quoted ''logger'')))"

text \<open>
  \<open>_setup_cron_jobs\<close> writes the user's crontab inside a \<open>try\<close> whose handler only logs.
\<close>

definition AutonomousTaskPlanner_setup_cron_jobs :: "world \<Rightarrow> exn + unit" where
  "AutonomousTaskPlanner_setup_cron_jobs w = try_except (crontab_write w) (\<lambda>e. Inr ())"

text \<open>
  The constructor builds the four agents in this order and then sets up the cron jobs;
  the first step that raises ends it.
\<close>

definition AutonomousTaskPlanner_init ::
    "world \<Rightarrow> clock \<Rightarrow> string \<Rightarrow> exn + AutonomousTaskPlanner" where
  "AutonomousTaskPlanner_init w clk config_path =
     exn_bind (AutonomousTaskPlanner_load_config w config_path) (\<lambda>cfg.
     exn_bind (ReviewerLearnerAgent_init w clk cfg) (\<lambda>reviewer.
     exn_bind (CollectorAgent_init w clk cfg) (\<lambda>collector.
     exn_bind (PlannerAgent_init w clk cfg) (\<lambda>planner.
     exn_bind (AutonomousTaskPlanner_setup_cron_jobs w) (\<lambda>done.
       Inr \<lparr> config = cfg,
             reviewer_agent = reviewer,
             collector_agent = collector,
             planner_agent = planner,
             executor_agent = ExecutorAgent_init w clk cfg \<rparr>)))))"

text \<open>
  The orchestrator only calls \<open>execute\<close> on its agents. \<open>agent_executes\<close> holds what those
  four calls return or raise; \<open>AutonomousTaskPlanner_executes\<close> are the calls of the agents
  the constructor built.
\<close>

record agent_executes =
  reviewer_execute :: "exn + pydict"
  collector_execute :: "exn + pydict"
  planner_execute :: "pyval \<Rightarrow> exn + pydict"
  executor_execute :: "pyval \<Rightarrow> exn + pydict"

definition AutonomousTaskPlanner_executes ::
    "AutonomousTaskPlanner \<Rightarrow> world \<Rightarrow> clock \<Rightarrow> agent_executes" where
  "AutonomousTaskPlanner_executes self w clk =
     \<lparr> reviewer_execute = ReviewerLearnerAgent_execute (reviewer_agent self) clk,
       collector_execute = CollectorAgent_execute (collector_agent self) w clk,
       planner_execute = PlannerAgent_execute (planner_agent self) clk,
       executor_execute = ExecutorAgent_execute (executor_agent self) clk \<rparr>"

text \<open>
  \<open>run_agent\<close>: the branch for \<open>executor\<close> has a \<open>return\<close> only under its \<open>if\<close>, so the
  function falls off its end and yields \<open>None\<close> otherwise. There is no \<open>try\<close>: what an
  agent raises leaves the function.
\<close>

definition AutonomousTaskPlanner_run_agent_with :: "agent_executes \<Rightarrow> string \<Rightarrow> exn + pyval" where
  "AutonomousTaskPlanner_run_agent_with ags agent_name =
     (if agent_name = ''reviewer'' then
        exn_bind (reviewer_execute ags) (\<lambda>result. Inr (PDict result))
      else if agent_name = ''collector'' then
        exn_bind (collector_execute ags) (\<lambda>result. Inr (PDict result))
      else if agent_name = ''planner'' then
        exn_bind (collector_execute ags) (\<lambda>collector_data.
        exn_bind (planner_execute ags (PDict collector_data)) (\<lambda>result. Inr (PDict result)))
      else if agent_name = ''executor'' then
        exn_bind (collector_execute ags) (\<lambda>collector_data.
        exn_bind (planner_execute ags (PDict collector_data)) (\<lambda>planner_result.
          if truthy (dict_get planner_result ''plan_approved'' PNone)
          then exn_bind (dict_getitem planner_result ''final_plan'') (\<lambda>final_plan.
               exn_bind (executor_execute ags final_plan) (\<lambda>result. Inr (PDict result)))
          else Inr PNone))
      else Inl (ValueError (''Unknown agent: '' @ agent_name)))"

definition AutonomousTaskPlanner_run_agent ::
    "AutonomousTaskPlanner \<Rightarrow> world \<Rightarrow> clock \<Rightarrow> string \<Rightarrow> exn + pyval" where
  "AutonomousTaskPlanner_run_agent self w clk agent_name =
     AutonomousTaskPlanner_run_agent_with (AutonomousTaskPlanner_executes self w clk) agent_name"

text \<open>
  \<open>run_full_workflow\<close>, with the calls of \<open>execute\<close> it makes recorded in order, each with
  its argument. The result is the returned dictionary, or the exception that left the
  function: one an agent raised, or the \<open>KeyError\<close> of a subscript on a result that lacks
  the key.
\<close>

datatype call = CollectorCall | PlannerCall pyval | ExecutorCall pyval

definition workflow_report :: "string \<Rightarrow> pydict \<Rightarrow> pydict" where
  "workflow_report now results =
     [(''workflow_status'', PStr ''completed''),
      (''timestamp'', PStr now),
      (''results'', PDict results)]"

definition AutonomousTaskPlanner_run_full_workflow_with ::
    "agent_executes \<Rightarrow> string \<Rightarrow> (exn + pydict) \<times> call list" where
  "AutonomousTaskPlanner_run_full_workflow_with ags now =
     (let calls = [CollectorCall]
      in case collector_execute ags of
           Inl e \<Rightarrow> (Inl e, calls)
         | Inr collector_result \<Rightarrow>
      (let results = dict_setitem [] ''collector'' (PDict collector_result)
       in case dict_getitem collector_result ''status'' of
           Inl e \<Rightarrow> (Inl e, calls)
         | Inr collector_status \<Rightarrow>
             if collector_status = PStr ''success'' then
               (let calls = calls @ [PlannerCall (PDict collector_result)]
                in case planner_execute ags (PDict collector_result) of
                     Inl e \<Rightarrow> (Inl e, calls)
                   | Inr planner_result \<Rightarrow>
                (let results = dict_setitem results ''planner'' (PDict planner_result)
                 in case dict_getitem planner_result ''status'' of
                     Inl e \<Rightarrow> (Inl e, calls)
                   | Inr planner_status \<Rightarrow>
                       if planner_status = PStr ''success'' then
                         (case dict_getitem planner_result ''plan_approved'' of
                            Inl e \<Rightarrow> (Inl e, calls)
                          | Inr plan_approved \<Rightarrow>
                              if truthy plan_approved then
                                (case dict_getitem planner_result ''final_plan'' of
                                   Inl e \<Rightarrow> (Inl e, calls)
                                 | Inr final_plan \<Rightarrow>
                                     (let calls = calls @ [ExecutorCall final_plan]
                                      in case executor_execute ags final_plan of
                                           Inl e \<Rightarrow> (Inl e, calls)
                                         | Inr executor_result \<Rightarrow>
                                             (let results = dict_setitem results ''executor''
                                                              (PDict executor_result)
                                              in (Inr (workflow_report now results), calls))))
                              else (Inr (workflow_report now results), calls))
                       else (Inr (workflow_report now results), calls)))
             else (Inr (workflow_report now results), calls)))"

definition AutonomousTaskPlanner_run_full_workflow ::
    "AutonomousTaskPlanner \<Rightarrow> world \<Rightarrow> clock \<Rightarrow> (exn + pydict) \<times> call list" where
  "AutonomousTaskPlanner_run_full_workflow self w clk =
     AutonomousTaskPlanner_run_full_workflow_with
       (AutonomousTaskPlanner_executes self w clk) (now_workflow clk)"

section \<open>Scenarios\<close>

text \<open>A retry of the Execute stage: \<open>execute\<close> called twice on the same agent and plan.\<close>

definition ExecutorAgent_execute_retry ::
    "ExecutorAgent \<Rightarrow> clock \<Rightarrow> clock \<Rightarrow> pyval \<Rightarrow> (exn + pydict) \<times> (exn + pydict)" where
  "ExecutorAgent_execute_retry self clk1 clk2 approved_plan =
     (let first_report = ExecutorAgent_execute self clk1 approved_plan;
          second_report = ExecutorAgent_execute self clk2 approved_plan
      in (first_report, second_report))"

text \<open>
  What the orchestrator reads of its agents: an entry of the dictionary a call returned,
  the outcome of the planner on the collector's result, and whether that outcome is a
  dictionary whose \<open>plan_approved\<close> entry is true.
\<close>

definition outcome_item :: "exn + pydict \<Rightarrow> string \<Rightarrow> exn + pyval" where
  "outcome_item outcome k = exn_bind outcome (\<lambda>result. dict_getitem result k)"

definition planner_outcome :: "agent_executes \<Rightarrow> exn + pydict" where
  "planner_outcome ags =
     exn_bind (collector_execute ags) (\<lambda>collector_data.
       planner_execute ags (PDict collector_data))"

definition outcome_approved :: "exn + pydict \<Rightarrow> bool" where
  "outcome_approved outcome =
     (case outcome of
        Inr result \<Rightarrow> truthy (dict_get result ''plan_approved'' PNone)
      | Inl e \<Rightarrow> False)"

text \<open>
  Two half-open time ranges overlap when each starts before the other ends. The module
  has no slot type; the draft below carries the two slots of the specification's
  scenario, 9:00 to 10:00 with priority 5 and 9:30 to 10:30 with priority 2, in minutes
  of the day, and \<open>overlap_conflict\<close> is the conflict the specification expects for them.
  \<open>plan_slots\<close> reads the time ranges of the slots of a plan written this way, and
  \<open>has_overlap\<close> says that two of them overlap.
\<close>

definition ranges_overlap :: "int \<times> int \<Rightarrow> int \<times> int \<Rightarrow> bool" where
  "ranges_overlap a b = (fst a < snd b \<and> fst b < snd a)"




definition overlap_draft :: pydict where
  "overlap_draft =
     [(''plan_type'', PStr ''daily''),
      (''tasks'', PList
         [PDict [(''id'', PStr ''A''), (''priority'', PInt 5),
                 (''start'', PInt 540), (''end'', PInt 600)],
          PDict [(''id'', PStr ''B''), (''priority'', PInt 2),
                 (''start'', PInt 570), (''end'', PInt 630)]])]"

definition overlap_conflict :: pyval where
  "overlap_conflict =
     PDict [(''kind'', PStr ''TimeOverlap''), (''slots'', PList [PStr ''A'', PStr ''B'']),
            (''movable'', PStr ''B'')]"

definition example_clock :: clock where
  "example_clock =
     \<lparr> now_session = ''20240101_090000'',
       now_created = ''2024-01-01T09:00:01'',
       now_revised = ''2024-01-01T09:00:02'',
       now_approved = ''2024-01-01T09:00:03'',
       now_prepared = ''2024-01-01T09:00:00'',
       now_workflow = ''2024-01-01T09:00:04'',
       reviewer_seconds = 1, collector_seconds = 1, planner_seconds = 1, executor_seconds = 1 \<rparr>"

text \<open>
  Three model clients: one whose calls raise an \<open>Exception\<close>, one that answers, and one
  whose call is interrupted from the keyboard.
\<close>

definition failing_model :: gemini_client where
  "failing_model p = Inl (ExternalError ''model unavailable'')"

definition answering_model :: gemini_client where
  "answering_model p = Inr ''ok''"

definition interrupted_model :: gemini_client where
  "interrupted_model p = Inl KeyboardInterrupt"

text \<open>A machine with no environment variable set, no network and an empty configuration.\<close>

definition bare_world :: world where
  "bare_world =
     \<lparr> environ = (\<lambda>k. None),
       GenerativeModel = (\<lambda>api_key name. failing_model),
       weather_request = (\<lambda>key. Inl (ExternalError ''timed out'')),
       json_load = (\<lambda>path. Inr []),
       crontab_write = Inr () \<rparr>"

definition offline_planner :: PlannerAgent where
  "offline_planner =
     \<lparr> pl_config = [], pl_session_id = ''20240101_090000'',
       pl_gemini_client = failing_model,
       pl_conflict_detector = ConflictDetector,
       pl_priority_weights = default_priority_weights \<rparr>"

definition online_planner :: PlannerAgent where
  "online_planner = offline_planner\<lparr>pl_gemini_client := answering_model\<rparr>"

definition interrupted_planner :: PlannerAgent where
  "interrupted_planner = offline_planner\<lparr>pl_gemini_client := interrupted_model\<rparr>"

definition approved_example_plan :: pyval where
  "approved_example_plan =
     PDict (PlannerAgent_approve_plan offline_planner example_clock overlap_draft)"

text \<open>
  Planners whose approval step raises an \<open>Exception\<close>, or is cancelled, and three sets of
  agents for the orchestrator.
\<close>

definition raising_planner_methods :: planner_methods where
  "raising_planner_methods =
     (PlannerAgent_methods online_planner example_clock)
       \<lparr>approve_plan := (\<lambda>plan. Inl (ExternalError ''approval service down''))\<rparr>"

definition cancelled_planner_methods :: planner_methods where
  "cancelled_planner_methods =
     (PlannerAgent_methods online_planner example_clock)
       \<lparr>approve_plan := (\<lambda>plan. Inl CancelledError)\<rparr>"

text \<open>An executor, a collector and a reviewer, each with a last step that raises.\<close>

definition example_collector :: CollectorAgent where
  "example_collector =
     \<lparr> co_config = [], co_session_id = ''20240101_090000'',
       co_weather_api_key = None,
       co_calendar_service = [(''credentials'', PStr ''google_calendar_credentials'')],
       co_notion_client = [(''token'', PNone)],
       co_gemini_client = answering_model \<rparr>"

definition example_reviewer :: ReviewerLearnerAgent where
  "example_reviewer =
     \<lparr> rv_config = [], rv_session_id = ''20240101_090000'',
       rv_gemini_client = answering_model,
       rv_notion_client = [(''token'', PNone)],
       rv_calendar_service = [(''credentials'', PStr ''google_calendar_credentials'')] \<rparr>"

definition executor_methods_raising :: "exn \<Rightarrow> executor_methods" where
  "executor_methods_raising e =
     (ExecutorAgent_methods (ExecutorAgent_init bare_world example_clock []))
       \<lparr>schedule_reminders := (\<lambda>plan. Inl e)\<rparr>"

definition collector_methods_raising :: "exn \<Rightarrow> collector_methods" where
  "collector_methods_raising e =
     (CollectorAgent_methods example_collector bare_world example_clock)
       \<lparr>prepare_clean_data := (\<lambda>structured_data. Inl e)\<rparr>"

definition reviewer_methods_raising :: "exn \<Rightarrow> reviewer_methods" where
  "reviewer_methods_raising e =
     (ReviewerLearnerAgent_methods example_reviewer)\<lparr>store_rules := (\<lambda>rules. Inl e)\<rparr>"

definition halted_agents :: agent_executes where
  "halted_agents =
     \<lparr> reviewer_execute = Inr (error_result (ExternalError ''calendar unreachable'')),
       collector_execute = Inr (error_result (ExternalError ''calendar unreachable'')),
       planner_execute =
         (\<lambda>input_data. Inr [(''status'', PStr ''success''), (''plan_approved'', PBool True),
                             (''final_plan'', PDict [])]),
       executor_execute = (\<lambda>plan. Inr [(''status'', PStr ''success'')]) \<rparr>"

definition rejecting_agents :: agent_executes where
  "rejecting_agents =
     \<lparr> reviewer_execute = Inr [(''status'', PStr ''success'')],
       collector_execute = Inr [(''status'', PStr ''success'')],
       planner_execute =
         (\<lambda>input_data. Inr (error_result (ExternalError ''no feasible schedule''))),
       executor_execute = (\<lambda>plan. Inr [(''status'', PStr ''success'')]) \<rparr>"

definition approving_agents :: agent_executes where
  "approving_agents =
     \<lparr> reviewer_execute = Inr [(''status'', PStr ''success'')],
       collector_execute = Inr [(''status'', PStr ''success'')],
       planner_execute =
         (\<lambda>input_data. Inr [(''status'', PStr ''success''), (''plan_approved'', PBool True),
                             (''final_plan'', approved_example_plan)]),
       executor_execute = (\<lambda>plan. Inr [(''status'', PStr ''success'')]) \<rparr>"

section \<open>Dictionaries and exceptions\<close>

lemma map_of_dict_setitem: "map_of (dict_setitem d k v) = (map_of d)(k \<mapsto> v)"
  by (induction d k v rule: dict_setitem.induct) auto

lemma dict_get_setitem:
  "dict_get (dict_setitem d k v) k' x = (if k' = k then v else dict_get d k' x)"
  by (simp add: dict_get_def map_of_dict_setitem)

lemma try_except_cases:
  "try_except body handler =
     (case body of Inr v \<Rightarrow> Inr v
      | Inl e \<Rightarrow> if is_Exception e then handler e else Inl e)"
  by (simp add: try_except_def)

lemma py_len_Exception: "py_len v = Inl e \<Longrightarrow> is_Exception e"
  by (cases v) auto

lemma py_get_Exception: "py_get v k x = Inl e \<Longrightarrow> is_Exception e"
  by (cases v) auto

section \<open>Conflict detection and resolution\<close>

text \<open>
  Claim C1. A draft with two overlapping slots should make \<open>detect_conflicts\<close> return a
  \<open>TimeOverlap\<close> conflict whose movable member is the slot of lower priority, and a
  draft without conflicts should give the empty list. The method returns the empty list
  whatever the plan: on the scenario draft, whose two ranges do overlap, it reports
  nothing. Its own comment names the check of overlapping time slots as what the
  implementation is to do.
\<close>

theorem detect_conflicts_overlap_empty:
  "ranges_overlap (540, 600) (570, 630)
   \<and> ConflictDetector_detect_conflicts ConflictDetector overlap_draft = []"
  by (simp add: ranges_overlap_def ConflictDetector_detect_conflicts_def)

lemma resolve_conflicts_cases:
  "PlannerAgent_resolve_conflicts self clk plan cs =
     (case pl_gemini_client self (ConflictPrompt plan cs) of
        Inr reply \<Rightarrow>
          Inr (dict_setitem
                (dict_setitem
                  (dict_setitem plan ''conflicts_resolved'' (PInt (int (length cs))))
                  ''resolution_details'' (PStr reply))
                ''revised_at'' (PStr (now_revised clk)))
      | Inl e \<Rightarrow> if is_Exception e then Inr plan else Inl e)"
  by (simp add: PlannerAgent_resolve_conflicts_def try_except_def exn_bind_def Let_def
        split: sum.splits)


section \<open>The planning stage\<close>

lemma draft_plan_cases:
  "PlannerAgent_draft_plan self clk i =
     (case pl_gemini_client self (PlanningPrompt i) of
        Inr reply \<Rightarrow>
          Inr [(''plan_type'', PStr ''daily''),
               (''created_at'', PStr (now_created clk)),
               (''ai_generated'', PBool True),
               (''plan_details'', PStr reply),
               (''tasks'', PList [])]
      | Inl e \<Rightarrow>
          if is_Exception e
          then Inr [(''status'', PStr ''error''), (''message'', PStr (exn_str e))]
          else Inl e)"
  by (simp add: PlannerAgent_draft_plan_def try_except_def exn_bind_def split: sum.splits)

lemma draft_tasks:
  "PlannerAgent_draft_plan self clk i = Inr plan \<Longrightarrow>
   dict_get plan ''tasks'' (PList []) = PList []"
  by (auto simp add: draft_plan_cases dict_get_def split: sum.splits if_splits)

lemma approved_tasks:
  "dict_get (PlannerAgent_approve_plan self clk
      (PlannerAgent_apply_learned_rules self plan ctx)) ''tasks'' x = dict_get plan ''tasks'' x"
  by (simp add: PlannerAgent_approve_plan_def PlannerAgent_apply_learned_rules_def
        dict_get_setitem)

text \<open>
  With the steps of the class, \<open>execute\<close> is decided by the draft step: what it raises
  past its own handler leaves \<open>execute\<close>, and whatever plan it returns is approved.
\<close>

lemma planner_report:
  "PlannerAgent_execute self clk i =
     exn_bind (PlannerAgent_draft_plan self clk i) (\<lambda>plan.
       Inr [(''status'', PStr ''success''),
            (''plan_approved'', PBool True),
            (''conflicts_resolved'', PInt 0),
            (''optimized_tasks'', PInt 0),
            (''final_plan'', PDict (PlannerAgent_approve_plan self clk
               (PlannerAgent_apply_learned_rules self plan i))),
            (''execution_time'', PFloat (planner_seconds clk))])"
proof (cases "PlannerAgent_draft_plan self clk i")
  case (Inl e)
  then have "\<not> is_Exception e"
    by (auto simp add: draft_plan_cases split: sum.splits if_splits)
  with Inl show ?thesis
    by (simp add: PlannerAgent_execute_def PlannerAgent_execute_with_def
          PlannerAgent_execute_body_def PlannerAgent_methods_def exn_bind_def try_except_def)
next
  case (Inr plan)
  then show ?thesis
    by (simp add: PlannerAgent_execute_def PlannerAgent_execute_with_def
          PlannerAgent_execute_body_def PlannerAgent_methods_def exn_bind_def try_except_def
          ConflictDetector_detect_conflicts_def approved_tasks draft_tasks)
qed


section \<open>What the resolver's output depends on\<close>

text \<open>
  Claim C5, as amended. The output of \<open>_resolve_conflicts\<close> is determined by the draft and
  the conflicts together with the outcome of the language model call and the reading of
  the clock: two runs that agree on these four return the same. Two runs on the same
  draft and conflicts whose model calls both answer agree on every key other than
  \<open>resolution_details\<close> and \<open>revised_at\<close>; a run whose model call raises an \<open>Exception\<close>
  returns the draft unchanged, and any other exception of the call leaves the resolver.
  No tie is broken by task id.
\<close>

theorem resolve_conflicts_determined_by:
  "(pl_gemini_client s1 (ConflictPrompt plan cs) = pl_gemini_client s2 (ConflictPrompt plan cs)
      \<and> now_revised c1 = now_revised c2 \<longrightarrow>
    PlannerAgent_resolve_conflicts s1 c1 plan cs = PlannerAgent_resolve_conflicts s2 c2 plan cs)
   \<and> (pl_gemini_client s1 (ConflictPrompt plan cs) = Inr t1
      \<and> pl_gemini_client s2 (ConflictPrompt plan cs) = Inr t2
      \<and> k \<noteq> ''resolution_details'' \<and> k \<noteq> ''revised_at'' \<longrightarrow>
    (\<exists>p1 p2. PlannerAgent_resolve_conflicts s1 c1 plan cs = Inr p1
           \<and> PlannerAgent_resolve_conflicts s2 c2 plan cs = Inr p2
           \<and> map_of p1 k = map_of p2 k))
   \<and> (pl_gemini_client s1 (ConflictPrompt plan cs) = Inl e \<and> is_Exception e \<longrightarrow>
    PlannerAgent_resolve_conflicts s1 c1 plan cs = Inr plan)
   \<and> (pl_gemini_client s1 (ConflictPrompt plan cs) = Inl e \<and> \<not> is_Exception e \<longrightarrow>
    PlannerAgent_resolve_conflicts s1 c1 plan cs = Inl e)"
proof -
  have same: "pl_gemini_client s1 (ConflictPrompt plan cs)
        = pl_gemini_client s2 (ConflictPrompt plan cs)
      \<and> now_revised c1 = now_revised c2 \<longrightarrow>
    PlannerAgent_resolve_conflicts s1 c1 plan cs = PlannerAgent_resolve_conflicts s2 c2 plan cs"
  proof (cases "pl_gemini_client s2 (ConflictPrompt plan cs)")
    case (Inl err)
    then show ?thesis by (simp add: resolve_conflicts_cases)
  next
    case (Inr reply)
    then show ?thesis by (simp add: resolve_conflicts_cases)
  qed
  have rest: "pl_gemini_client s1 (ConflictPrompt plan cs) = Inr t1
      \<and> pl_gemini_client s2 (ConflictPrompt plan cs) = Inr t2
      \<and> k \<noteq> ''resolution_details'' \<and> k \<noteq> ''revised_at'' \<longrightarrow>
    (\<exists>p1 p2. PlannerAgent_resolve_conflicts s1 c1 plan cs = Inr p1
           \<and> PlannerAgent_resolve_conflicts s2 c2 plan cs = Inr p2
           \<and> map_of p1 k = map_of p2 k)"
    by (simp add: resolve_conflicts_cases map_of_dict_setitem)
  have fail: "pl_gemini_client s1 (ConflictPrompt plan cs) = Inl e \<and> is_Exception e \<longrightarrow>
    PlannerAgent_resolve_conflicts s1 c1 plan cs = Inr plan"
    by (simp add: resolve_conflicts_cases)
  have leave: "pl_gemini_client s1 (ConflictPrompt plan cs) = Inl e \<and> \<not> is_Exception e \<longrightarrow>
    PlannerAgent_resolve_conflicts s1 c1 plan cs = Inl e"
    by (simp add: resolve_conflicts_cases)
  from same rest fail leave show ?thesis by blast
qed

text \<open>
  The parts at concrete runs: the same answer and clock reading give the same plan
  although the session and another reading differ; a later clock reading leaves the
  \<open>tasks\<close> entry as it is; with the model unavailable the draft comes back; an
  interrupt of the model call leaves the resolver.
\<close>

theorem resolve_conflicts_determined_by_witness:
  "PlannerAgent_resolve_conflicts online_planner example_clock overlap_draft [overlap_conflict]
     = PlannerAgent_resolve_conflicts (online_planner\<lparr>pl_session_id := ''20240102_090000''\<rparr>)
         (example_clock\<lparr>now_created := ''2024-01-02T09:00:00''\<rparr>) overlap_draft [overlap_conflict]
   \<and> (\<exists>p1 p2.
        PlannerAgent_resolve_conflicts online_planner example_clock overlap_draft
          [overlap_conflict] = Inr p1
        \<and> PlannerAgent_resolve_conflicts online_planner
            (example_clock\<lparr>now_revised := ''2024-01-01T09:05:00''\<rparr>) overlap_draft
            [overlap_conflict] = Inr p2
        \<and> map_of p1 ''tasks'' = map_of p2 ''tasks'')
   \<and> PlannerAgent_resolve_conflicts offline_planner example_clock overlap_draft [overlap_conflict]
     = Inr overlap_draft
   \<and> PlannerAgent_resolve_conflicts interrupted_planner example_clock overlap_draft
       [overlap_conflict] = Inl KeyboardInterrupt"
proof -
  have ok: "pl_gemini_client online_planner (ConflictPrompt overlap_draft [overlap_conflict])
              = Inr ''ok''"
    by (simp add: online_planner_def offline_planner_def answering_model_def)
  have ok': "pl_gemini_client (online_planner\<lparr>pl_session_id := ''20240102_090000''\<rparr>)
               (ConflictPrompt overlap_draft [overlap_conflict]) = Inr ''ok''"
    by (simp add: online_planner_def offline_planner_def answering_model_def)
  have down: "pl_gemini_client offline_planner (ConflictPrompt overlap_draft [overlap_conflict])
              = Inl (ExternalError ''model unavailable'')"
    by (simp add: offline_planner_def failing_model_def)
  have stop: "pl_gemini_client interrupted_planner
                (ConflictPrompt overlap_draft [overlap_conflict]) = Inl KeyboardInterrupt"
    by (simp add: interrupted_planner_def offline_planner_def interrupted_model_def)
  have w1: "PlannerAgent_resolve_conflicts online_planner example_clock overlap_draft
              [overlap_conflict]
     = PlannerAgent_resolve_conflicts (online_planner\<lparr>pl_session_id := ''20240102_090000''\<rparr>)
         (example_clock\<lparr>now_created := ''2024-01-02T09:00:00''\<rparr>) overlap_draft [overlap_conflict]"
    using ok ok'
      resolve_conflicts_determined_by [of online_planner overlap_draft "[overlap_conflict]"
        "online_planner\<lparr>pl_session_id := ''20240102_090000''\<rparr>"
        example_clock "example_clock\<lparr>now_created := ''2024-01-02T09:00:00''\<rparr>"
        "''ok''" "''ok''" "''tasks''" "ExternalError ''model unavailable''"]
    by simp
  have w2: "\<exists>p1 p2.
        PlannerAgent_resolve_conflicts online_planner example_clock overlap_draft
          [overlap_conflict] = Inr p1
        \<and> PlannerAgent_resolve_conflicts online_planner
            (example_clock\<lparr>now_revised := ''2024-01-01T09:05:00''\<rparr>) overlap_draft
            [overlap_conflict] = Inr p2
        \<and> map_of p1 ''tasks'' = map_of p2 ''tasks''"
    using ok
      resolve_conflicts_determined_by [of online_planner overlap_draft "[overlap_conflict]"
        online_planner
        example_clock "example_clock\<lparr>now_revised := ''2024-01-01T09:05:00''\<rparr>"
        "''ok''" "''ok''" "''tasks''" "ExternalError ''model unavailable''"]
    by simp
  have w3: "PlannerAgent_resolve_conflicts offline_planner example_clock overlap_draft
              [overlap_conflict] = Inr overlap_draft"
    using down
      resolve_conflicts_determined_by [of offline_planner overlap_draft "[overlap_conflict]"
        offline_planner example_clock example_clock
        "''ok''" "''ok''" "''tasks''" "ExternalError ''model unavailable''"]
    by simp
  have w4: "PlannerAgent_resolve_conflicts interrupted_planner example_clock overlap_draft
              [overlap_conflict] = Inl KeyboardInterrupt"
    using stop
      resolve_conflicts_determined_by [of interrupted_planner overlap_draft "[overlap_conflict]"
        interrupted_planner example_clock example_clock
        "''ok''" "''ok''" "''tasks''" KeyboardInterrupt]
    by simp
  from w1 w2 w3 w4 show ?thesis by blast
qed

text \<open>
  Claim C5 as stated fails: the same agent, draft and conflicts, with the same answer of
  the model, give two different plans when the clock has moved between the runs.
\<close>

theorem resolve_conflicts_clock_counterexample:
  "PlannerAgent_resolve_conflicts online_planner example_clock overlap_draft [overlap_conflict]
     \<noteq> PlannerAgent_resolve_conflicts online_planner
         (example_clock\<lparr>now_revised := ''2024-01-01T09:05:00''\<rparr>) overlap_draft [overlap_conflict]"
  by (simp add: resolve_conflicts_cases online_planner_def offline_planner_def
        answering_model_def overlap_draft_def example_clock_def)

section \<open>The Execute stage\<close>

lemma create_plan_summary_Exception:
  "ExecutorAgent_create_plan_summary self plan = Inl e \<Longrightarrow> is_Exception e"
  by (auto simp add: ExecutorAgent_create_plan_summary_def exn_bind_def
        split: sum.splits dest: py_len_Exception py_get_Exception)

lemma send_notifications_returns:
  "\<exists>n. ExecutorAgent_send_notifications self plan = Inr [(''sent'', PInt n)]"
proof (cases "ExecutorAgent_create_plan_summary self plan")
  case (Inl e)
  then have "is_Exception e" by (rule create_plan_summary_Exception)
  with Inl show ?thesis
    by (simp add: ExecutorAgent_send_notifications_def try_except_def exn_bind_def)
next
  case (Inr summary)
  then show ?thesis
    by (simp add: ExecutorAgent_send_notifications_def try_except_def exn_bind_def)
qed

lemma executor_report:
  "ExecutorAgent_send_notifications self plan = Inr [(''sent'', PInt n)] \<Longrightarrow>
   ExecutorAgent_execute self clk plan =
     Inr [(''status'', PStr ''success''),
          (''calendar_events_created'', PInt 5),
          (''notion_tasks_updated'', PInt 8),
          (''notifications_sent'', PInt n),
          (''reminders_scheduled'', PInt 3),
          (''execution_time'', PFloat (executor_seconds clk))]"
  by (simp add: ExecutorAgent_execute_def ExecutorAgent_execute_with_def
        ExecutorAgent_execute_body_def ExecutorAgent_methods_def exn_bind_def try_except_def
        ExecutorAgent_update_calendar_events_def ExecutorAgent_update_notion_tasks_def
        ExecutorAgent_schedule_reminders_def dict_get_def)

text \<open>
  Claim C6, as amended. The executor keeps no run history and does not recognise an
  earlier run: executing the same plan twice gives the same report both times, apart
  from the measured \<open>execution_time\<close>, and each run reports five calendar events created.
\<close>

theorem execute_retry_same_report:
  "\<exists>first_report second_report.
     ExecutorAgent_execute_retry self clk1 clk2 plan = (Inr first_report, Inr second_report)
     \<and> dict_get first_report ''calendar_events_created'' PNone = PInt 5
     \<and> dict_get second_report ''calendar_events_created'' PNone = PInt 5
     \<and> second_report
         = dict_setitem first_report ''execution_time'' (PFloat (executor_seconds clk2))"
proof -
  obtain n where n: "ExecutorAgent_send_notifications self plan = Inr [(''sent'', PInt n)]"
    using send_notifications_returns by blast
  show ?thesis
    by (simp add: ExecutorAgent_execute_retry_def executor_report [OF n] dict_get_def)
qed

text \<open>
  Claim C6 as stated fails: after a first run that reported its five events, the second
  run on the same approved plan reports five created events again, not none.
\<close>

theorem execute_retry_counterexample:
  "outcome_item (fst (ExecutorAgent_execute_retry (ExecutorAgent_init bare_world example_clock [])
       example_clock example_clock approved_example_plan)) ''calendar_events_created''
     = Inr (PInt 5)
   \<and> outcome_item (snd (ExecutorAgent_execute_retry (ExecutorAgent_init bare_world example_clock [])
       example_clock example_clock approved_example_plan)) ''calendar_events_created''
     = Inr (PInt 5)"
proof -
  obtain n where n: "ExecutorAgent_send_notifications
      (ExecutorAgent_init bare_world example_clock []) approved_example_plan
        = Inr [(''sent'', PInt n)]"
    using send_notifications_returns by blast
  show ?thesis
    by (simp add: ExecutorAgent_execute_retry_def executor_report [OF n] outcome_item_def
          exn_bind_def dict_getitem_def)
qed

text \<open>
  Claim C7. When \<open>TELEGRAM_BOT_TOKEN\<close> is not set, the executor is built with no bot, and
  \<open>execute\<close> on any plan runs to its end: it returns status \<open>success\<close> with
  \<open>notifications_sent\<close> equal to 0.
\<close>

theorem unconfigured_notifier_sends_nothing:
  assumes "environ w ''TELEGRAM_BOT_TOKEN'' = None"
  shows "ex_telegram_bot (ExecutorAgent_init w clk cfg) = PNone
       \<and> ExecutorAgent_execute (ExecutorAgent_init w clk cfg) clk' plan =
           Inr [(''status'', PStr ''success''),
                (''calendar_events_created'', PInt 5),
                (''notion_tasks_updated'', PInt 8),
                (''notifications_sent'', PInt 0),
                (''reminders_scheduled'', PInt 3),
                (''execution_time'', PFloat (executor_seconds clk'))]"
proof -
  have bot: "ex_telegram_bot (ExecutorAgent_init w clk cfg) = PNone"
    using assms by (simp add: ExecutorAgent_init_def ExecutorAgent_initialize_telegram_def)
  then have "ExecutorAgent_send_notifications (ExecutorAgent_init w clk cfg) plan
               = Inr [(''sent'', PInt 0)]"
    by (simp add: ExecutorAgent_send_notifications_def)
  from executor_report [OF this] bot show ?thesis by simp
qed

theorem unconfigured_notifier_sends_nothing_witness:
  "environ bare_world ''TELEGRAM_BOT_TOKEN'' = None
   \<and> outcome_item (ExecutorAgent_execute (ExecutorAgent_init bare_world example_clock [])
        example_clock approved_example_plan) ''notifications_sent'' = Inr (PInt 0)
   \<and> outcome_item (ExecutorAgent_execute (ExecutorAgent_init bare_world example_clock [])
        example_clock approved_example_plan) ''status'' = Inr (PStr ''success'')"
proof -
  have h: "environ bare_world ''TELEGRAM_BOT_TOKEN'' = None"
    by (simp add: bare_world_def)
  show ?thesis
    using h unconfigured_notifier_sends_nothing [OF h, of example_clock "[]" example_clock
        approved_example_plan]
    by (simp add: outcome_item_def exn_bind_def dict_getitem_def)
qed

section \<open>Startup\<close>

text \<open>
  Claim C8. When \<open>GEMINI_API_KEY\<close> is not set, the constructors of the reviewer, the
  collector and the planner each raise a \<open>ValueError\<close>, and so the constructor of the
  orchestrator, which builds them before anything can be run, ends with an error.
\<close>

theorem missing_gemini_key_fails_startup:
  assumes "environ w ''GEMINI_API_KEY'' = None"
  shows "ReviewerLearnerAgent_init w clk cfg =
           Inl (ValueError ''GEMINI_API_KEY environment variable required'')
       \<and> CollectorAgent_init w clk cfg = Inl (ValueError ''GEMINI_API_KEY required'')
       \<and> PlannerAgent_init w clk cfg = Inl (ValueError ''GEMINI_API_KEY required'')
       \<and> (\<exists>e. AutonomousTaskPlanner_init w clk config_path = Inl e)"
proof -
  have r: "\<And>c. ReviewerLearnerAgent_init w clk c =
           Inl (ValueError ''GEMINI_API_KEY environment variable required'')"
    using assms
    by (simp add: ReviewerLearnerAgent_init_def ReviewerLearnerAgent_initialize_gemini_def
          exn_bind_def)
  have c: "CollectorAgent_init w clk cfg = Inl (ValueError ''GEMINI_API_KEY required'')"
    using assms
    by (simp add: CollectorAgent_init_def CollectorAgent_initialize_gemini_def exn_bind_def)
  have p: "PlannerAgent_init w clk cfg = Inl (ValueError ''GEMINI_API_KEY required'')"
    using assms
    by (simp add: PlannerAgent_init_def PlannerAgent_initialize_gemini_def exn_bind_def)
  have a: "\<exists>e. AutonomousTaskPlanner_init w clk config_path = Inl e"
    by (cases "AutonomousTaskPlanner_load_config w config_path")
       (simp_all add: AutonomousTaskPlanner_init_def exn_bind_def r)
  from r c p a show ?thesis by blast
qed

theorem missing_gemini_key_fails_startup_witness:
  "environ bare_world ''GEMINI_API_KEY'' = None
   \<and> PlannerAgent_init bare_world example_clock [] = Inl (ValueError ''GEMINI_API_KEY required'')
   \<and> AutonomousTaskPlanner_init bare_world example_clock ''config.json''
       = Inl (ValueError ''GEMINI_API_KEY environment variable required'')"
proof -
  have h: "environ bare_world ''GEMINI_API_KEY'' = None"
    by (simp add: bare_world_def)
  have cfg: "AutonomousTaskPlanner_load_config bare_world ''config.json'' = Inr []"
    by (simp add: AutonomousTaskPlanner_load_config_def try_except_def bare_world_def)
  have "AutonomousTaskPlanner_init bare_world example_clock ''config.json''
       = Inl (ValueError ''GEMINI_API_KEY environment variable required'')"
    using missing_gemini_key_fails_startup [OF h, of example_clock "[]" "''config.json''"]
    by (simp add: AutonomousTaskPlanner_init_def cfg exn_bind_def)
  then show ?thesis
    using h missing_gemini_key_fails_startup [OF h, of example_clock "[]" "''config.json''"]
    by simp
qed

section \<open>The handlers of \<open>execute\<close>\<close>

lemma planner_body_success:
  "PlannerAgent_execute_body pm d i = Inr r \<Longrightarrow>
   dict_getitem r ''status'' = Inr (PStr ''success'')"
  by (auto simp add: PlannerAgent_execute_body_def exn_bind_def dict_getitem_def
        split: sum.splits)

lemma collector_body_success:
  "CollectorAgent_execute_body cm d = Inr r \<Longrightarrow>
   dict_getitem r ''status'' = Inr (PStr ''success'')"
  by (auto simp add: CollectorAgent_execute_body_def exn_bind_def dict_getitem_def
        split: sum.splits)

lemma executor_body_success:
  "ExecutorAgent_execute_body em d p = Inr r \<Longrightarrow>
   dict_getitem r ''status'' = Inr (PStr ''success'')"
  by (auto simp add: ExecutorAgent_execute_body_def exn_bind_def dict_getitem_def
        split: sum.splits)

lemma reviewer_body_success:
  "ReviewerLearnerAgent_execute_body rm d = Inr r \<Longrightarrow>
   dict_getitem r ''status'' = Inr (PStr ''success'')"
  by (auto simp add: ReviewerLearnerAgent_execute_body_def exn_bind_def dict_getitem_def
        split: sum.splits)

text \<open>
  Claim C9, as amended. For each of the four agents, whatever its steps return, of their
  annotated types, or raise: when no step of the \<open>try\<close> block raises, \<open>execute\<close> returns
  the dictionary the block built, whose status is \<open>success\<close>; when a step raises an
  exception \<open>e\<close> of class \<open>Exception\<close>, \<open>execute\<close> returns exactly the dictionary with
  status \<open>error\<close> and the message \<open>str(e)\<close>; and when a step raises an exception that is
  not an \<open>Exception\<close>, such as a cancellation or a keyboard interrupt, that exception
  leaves \<open>execute\<close> and reaches the caller.
\<close>

theorem execute_converts_Exception_only:
  "(PlannerAgent_execute_body pm d i = Inr r \<longrightarrow>
      PlannerAgent_execute_with pm d i = Inr r
      \<and> dict_getitem r ''status'' = Inr (PStr ''success''))
   \<and> (PlannerAgent_execute_body pm d i = Inl e \<and> is_Exception e \<longrightarrow>
      PlannerAgent_execute_with pm d i
        = Inr [(''status'', PStr ''error''), (''message'', PStr (exn_str e))])
   \<and> (PlannerAgent_execute_body pm d i = Inl e \<and> \<not> is_Exception e \<longrightarrow>
      PlannerAgent_execute_with pm d i = Inl e)
   \<and> (CollectorAgent_execute_body cm d = Inr r \<longrightarrow>
      CollectorAgent_execute_with cm d = Inr r
      \<and> dict_getitem r ''status'' = Inr (PStr ''success''))
   \<and> (CollectorAgent_execute_body cm d = Inl e \<and> is_Exception e \<longrightarrow>
      CollectorAgent_execute_with cm d
        = Inr [(''status'', PStr ''error''), (''message'', PStr (exn_str e))])
   \<and> (CollectorAgent_execute_body cm d = Inl e \<and> \<not> is_Exception e \<longrightarrow>
      CollectorAgent_execute_with cm d = Inl e)
   \<and> (ExecutorAgent_execute_body em d p = Inr r \<longrightarrow>
      ExecutorAgent_execute_with em d p = Inr r
      \<and> dict_getitem r ''status'' = Inr (PStr ''success''))
   \<and> (ExecutorAgent_execute_body em d p = Inl e \<and> is_Exception e \<longrightarrow>
      ExecutorAgent_execute_with em d p
        = Inr [(''status'', PStr ''error''), (''message'', PStr (exn_str e))])
   \<and> (ExecutorAgent_execute_body em d p = Inl e \<and> \<not> is_Exception e \<longrightarrow>
      ExecutorAgent_execute_with em d p = Inl e)
   \<and> (ReviewerLearnerAgent_execute_body rm d = Inr r \<longrightarrow>
      ReviewerLearnerAgent_execute_with rm d = Inr r
      \<and> dict_getitem r ''status'' = Inr (PStr ''success''))
   \<and> (ReviewerLearnerAgent_execute_body rm d = Inl e \<and> is_Exception e \<longrightarrow>
      ReviewerLearnerAgent_execute_with rm d
        = Inr [(''status'', PStr ''error''), (''message'', PStr (exn_str e))])
   \<and> (ReviewerLearnerAgent_execute_body rm d = Inl e \<and> \<not> is_Exception e \<longrightarrow>
      ReviewerLearnerAgent_execute_with rm d = Inl e)"
proof -
  have pl: "(PlannerAgent_execute_body pm d i = Inr r \<longrightarrow>
      PlannerAgent_execute_with pm d i = Inr r
      \<and> dict_getitem r ''status'' = Inr (PStr ''success''))
   \<and> (PlannerAgent_execute_body pm d i = Inl e \<and> is_Exception e \<longrightarrow>
      PlannerAgent_execute_with pm d i
        = Inr [(''status'', PStr ''error''), (''message'', PStr (exn_str e))])
   \<and> (PlannerAgent_execute_body pm d i = Inl e \<and> \<not> is_Exception e \<longrightarrow>
      PlannerAgent_execute_with pm d i = Inl e)"
    using planner_body_success [of pm d i r]
    by (simp add: PlannerAgent_execute_with_def try_except_def error_result_def)
  have co: "(CollectorAgent_execute_body cm d = Inr r \<longrightarrow>
      CollectorAgent_execute_with cm d = Inr r
      \<and> dict_getitem r ''status'' = Inr (PStr ''success''))
   \<and> (CollectorAgent_execute_body cm d = Inl e \<and> is_Exception e \<longrightarrow>
      CollectorAgent_execute_with cm d
        = Inr [(''status'', PStr ''error''), (''message'', PStr (exn_str e))])
   \<and> (CollectorAgent_execute_body cm d = Inl e \<and> \<not> is_Exception e \<longrightarrow>
      CollectorAgent_execute_with cm d = Inl e)"
    using collector_body_success [of cm d r]
    by (simp add: CollectorAgent_execute_with_def try_except_def error_result_def)
  have ex: "(ExecutorAgent_execute_body em d p = Inr r \<longrightarrow>
      ExecutorAgent_execute_with em d p = Inr r
      \<and> dict_getitem r ''status'' = Inr (PStr ''success''))
   \<and> (ExecutorAgent_execute_body em d p = Inl e \<and> is_Exception e \<longrightarrow>
      ExecutorAgent_execute_with em d p
        = Inr [(''status'', PStr ''error''), (''message'', PStr (exn_str e))])
   \<and> (ExecutorAgent_execute_body em d p = Inl e \<and> \<not> is_Exception e \<longrightarrow>
      ExecutorAgent_execute_with em d p = Inl e)"
    using executor_body_success [of em d p r]
    by (simp add: ExecutorAgent_execute_with_def try_except_def error_result_def)
  have rv: "(ReviewerLearnerAgent_execute_body rm d = Inr r \<longrightarrow>
      ReviewerLearnerAgent_execute_with rm d = Inr r
      \<and> dict_getitem r ''status'' = Inr (PStr ''success''))
   \<and> (ReviewerLearnerAgent_execute_body rm d = Inl e \<and> is_Exception e \<longrightarrow>
      ReviewerLearnerAgent_execute_with rm d
        = Inr [(''status'', PStr ''error''), (''message'', PStr (exn_str e))])
   \<and> (ReviewerLearnerAgent_execute_body rm d = Inl e \<and> \<not> is_Exception e \<longrightarrow>
      ReviewerLearnerAgent_execute_with rm d = Inl e)"
    using reviewer_body_success [of rm d r]
    by (simp add: ReviewerLearnerAgent_execute_with_def try_except_def error_result_def)
  from pl co ex rv show ?thesis by blast
qed

text \<open>
  The cases at concrete agents. A planner whose model answers: all steps return; the
  approval step raises an \<open>Exception\<close>; the approval step is cancelled. An executor, a
  collector and a reviewer whose last step raises an \<open>Exception\<close>, or is cancelled.
\<close>

theorem execute_converts_Exception_only_witness:
  "(\<exists>r. PlannerAgent_execute_with (PlannerAgent_methods online_planner example_clock) 1 (PDict [])
          = Inr r
        \<and> dict_getitem r ''status'' = Inr (PStr ''success''))
   \<and> PlannerAgent_execute_with raising_planner_methods 1 (PDict [])
       = Inr [(''status'', PStr ''error''), (''message'', PStr ''approval service down'')]
   \<and> PlannerAgent_execute_with cancelled_planner_methods 1 (PDict []) = Inl CancelledError
   \<and> ExecutorAgent_execute_with (executor_methods_raising (ExternalError ''scheduler down'')) 1
        approved_example_plan
       = Inr [(''status'', PStr ''error''), (''message'', PStr ''scheduler down'')]
   \<and> ExecutorAgent_execute_with (executor_methods_raising CancelledError) 1
        approved_example_plan = Inl CancelledError
   \<and> CollectorAgent_execute_with (collector_methods_raising (ExternalError ''disk full'')) 1
       = Inr [(''status'', PStr ''error''), (''message'', PStr ''disk full'')]
   \<and> CollectorAgent_execute_with (collector_methods_raising CancelledError) 1
       = Inl CancelledError
   \<and> ReviewerLearnerAgent_execute_with (reviewer_methods_raising (ExternalError ''notion down'')) 1
       = Inr [(''status'', PStr ''error''), (''message'', PStr ''notion down'')]
   \<and> ReviewerLearnerAgent_execute_with (reviewer_methods_raising CancelledError) 1
       = Inl CancelledError"
proof -
  have drafted: "PlannerAgent_draft_plan online_planner example_clock (PDict [])
      = Inr [(''plan_type'', PStr ''daily''),
             (''created_at'', PStr (now_created example_clock)),
             (''ai_generated'', PBool True),
             (''plan_details'', PStr ''ok''),
             (''tasks'', PList [])]"
    by (simp add: draft_plan_cases online_planner_def offline_planner_def answering_model_def)
  have good: "\<exists>r. PlannerAgent_execute_body (PlannerAgent_methods online_planner example_clock)
                    1 (PDict []) = Inr r"
    using draft_tasks [OF drafted]
    by (simp add: PlannerAgent_execute_body_def PlannerAgent_methods_def exn_bind_def
          drafted ConflictDetector_detect_conflicts_def approved_tasks)
  have raised: "PlannerAgent_execute_body raising_planner_methods 1 (PDict [])
     = Inl (ExternalError ''approval service down'')"
    by (simp add: raising_planner_methods_def PlannerAgent_execute_body_def
          PlannerAgent_methods_def exn_bind_def drafted ConflictDetector_detect_conflicts_def)
  have cancelled: "PlannerAgent_execute_body cancelled_planner_methods 1 (PDict [])
     = Inl CancelledError"
    by (simp add: cancelled_planner_methods_def PlannerAgent_execute_body_def
          PlannerAgent_methods_def exn_bind_def drafted ConflictDetector_detect_conflicts_def)
  have ex_body: "\<And>e. ExecutorAgent_execute_body (executor_methods_raising e) 1
                       approved_example_plan = Inl e"
  proof -
    fix e
    obtain n where n: "ExecutorAgent_send_notifications
        (ExecutorAgent_init bare_world example_clock []) approved_example_plan
          = Inr [(''sent'', PInt n)]"
      using send_notifications_returns by blast
    show "ExecutorAgent_execute_body (executor_methods_raising e) 1 approved_example_plan = Inl e"
      by (simp add: executor_methods_raising_def ExecutorAgent_execute_body_def
            ExecutorAgent_methods_def exn_bind_def n)
  qed
  have co_body: "\<And>e. CollectorAgent_execute_body (collector_methods_raising e) 1 = Inl e"
    by (simp add: collector_methods_raising_def CollectorAgent_execute_body_def
          CollectorAgent_methods_def exn_bind_def example_collector_def answering_model_def
          CollectorAgent_fetch_weather_data_def CollectorAgent_structure_data_def
          try_except_def)
  have rv_body: "\<And>e. ReviewerLearnerAgent_execute_body (reviewer_methods_raising e) 1 = Inl e"
    by (simp add: reviewer_methods_raising_def ReviewerLearnerAgent_execute_body_def
          ReviewerLearnerAgent_methods_def exn_bind_def example_reviewer_def
          answering_model_def ReviewerLearnerAgent_analyze_patterns_def
          ReviewerLearnerAgent_generate_rules_def try_except_def)
  from good obtain r where r: "PlannerAgent_execute_body
      (PlannerAgent_methods online_planner example_clock) 1 (PDict []) = Inr r"
    by blast
  have w1: "\<exists>r. PlannerAgent_execute_with (PlannerAgent_methods online_planner example_clock)
                  1 (PDict []) = Inr r
        \<and> dict_getitem r ''status'' = Inr (PStr ''success'')"
    using r execute_converts_Exception_only
      [where pm = "PlannerAgent_methods online_planner example_clock" and d = 1
         and i = "PDict []" and r = r]
    by blast
  have w2: "PlannerAgent_execute_with raising_planner_methods 1 (PDict [])
       = Inr [(''status'', PStr ''error''), (''message'', PStr ''approval service down'')]"
    using raised execute_converts_Exception_only
      [where pm = raising_planner_methods and d = 1 and i = "PDict []"
         and e = "ExternalError ''approval service down''"]
    by simp
  have w3: "PlannerAgent_execute_with cancelled_planner_methods 1 (PDict []) = Inl CancelledError"
    using cancelled execute_converts_Exception_only
      [where pm = cancelled_planner_methods and d = 1 and i = "PDict []" and e = CancelledError]
    by simp
  have w4: "ExecutorAgent_execute_with (executor_methods_raising (ExternalError ''scheduler down''))
              1 approved_example_plan
       = Inr [(''status'', PStr ''error''), (''message'', PStr ''scheduler down'')]"
    using ex_body [of "ExternalError ''scheduler down''"] execute_converts_Exception_only
      [where em = "executor_methods_raising (ExternalError ''scheduler down'')" and d = 1
         and p = approved_example_plan and e = "ExternalError ''scheduler down''"]
    by simp
  have w5: "ExecutorAgent_execute_with (executor_methods_raising CancelledError) 1
              approved_example_plan = Inl CancelledError"
    using ex_body [of CancelledError] execute_converts_Exception_only
      [where em = "executor_methods_raising CancelledError" and d = 1
         and p = approved_example_plan and e = CancelledError]
    by simp
  have w6: "CollectorAgent_execute_with (collector_methods_raising (ExternalError ''disk full'')) 1
       = Inr [(''status'', PStr ''error''), (''message'', PStr ''disk full'')]"
    using co_body [of "ExternalError ''disk full''"] execute_converts_Exception_only
      [where cm = "collector_methods_raising (ExternalError ''disk full'')" and d = 1
         and e = "ExternalError ''disk full''"]
    by simp
  have w7: "CollectorAgent_execute_with (collector_methods_raising CancelledError) 1
       = Inl CancelledError"
    using co_body [of CancelledError] execute_converts_Exception_only
      [where cm = "collector_methods_raising CancelledError" and d = 1 and e = CancelledError]
    by simp
  have w8: "ReviewerLearnerAgent_execute_with
              (reviewer_methods_raising (ExternalError ''notion down'')) 1
       = Inr [(''status'', PStr ''error''), (''message'', PStr ''notion down'')]"
    using rv_body [of "ExternalError ''notion down''"] execute_converts_Exception_only
      [where rm = "reviewer_methods_raising (ExternalError ''notion down'')" and d = 1
         and e = "ExternalError ''notion down''"]
    by simp
  have w9: "ReviewerLearnerAgent_execute_with (reviewer_methods_raising CancelledError) 1
       = Inl CancelledError"
    using rv_body [of CancelledError] execute_converts_Exception_only
      [where rm = "reviewer_methods_raising CancelledError" and d = 1 and e = CancelledError]
    by simp
  from w1 w2 w3 w4 w5 w6 w7 w8 w9 show ?thesis by blast
qed

text \<open>
  Claim C9 as stated fails: with the model call of the draft step interrupted from the
  keyboard, \<open>execute\<close> of the planner as the class defines it returns no dictionary; the
  interrupt passes both handlers and reaches the caller.
\<close>

theorem execute_propagates_counterexample:
  "PlannerAgent_execute interrupted_planner example_clock (PDict []) = Inl KeyboardInterrupt"
  by (simp add: planner_report draft_plan_cases exn_bind_def interrupted_planner_def
        offline_planner_def interrupted_model_def)

section \<open>The orchestrator\<close>

text \<open>
  Claim C10. When the planner returns a result with no true \<open>plan_approved\<close> entry,
  \<open>run_agent("executor")\<close> returns \<open>None\<close>: no exception and no dictionary. For the other
  three agent names it returns the result dictionary of the agent it ran, or lets what
  that agent raised pass.
\<close>

theorem run_agent_executor_returns_none:
  assumes "planner_outcome ags = Inr planner_result"
    and "\<not> truthy (dict_get planner_result ''plan_approved'' PNone)"
  shows "AutonomousTaskPlanner_run_agent_with ags ''executor'' = Inr PNone
       \<and> AutonomousTaskPlanner_run_agent_with ags ''reviewer''
           = exn_bind (reviewer_execute ags) (\<lambda>result. Inr (PDict result))
       \<and> AutonomousTaskPlanner_run_agent_with ags ''collector''
           = exn_bind (collector_execute ags) (\<lambda>result. Inr (PDict result))
       \<and> AutonomousTaskPlanner_run_agent_with ags ''planner'' = Inr (PDict planner_result)"
  using assms
  by (auto simp add: AutonomousTaskPlanner_run_agent_with_def planner_outcome_def exn_bind_def
        split: sum.splits)

theorem run_agent_executor_returns_none_witness:
  "planner_outcome rejecting_agents = Inr (error_result (ExternalError ''no feasible schedule''))
   \<and> \<not> truthy (dict_get (error_result (ExternalError ''no feasible schedule''))
                 ''plan_approved'' PNone)
   \<and> AutonomousTaskPlanner_run_agent_with rejecting_agents ''executor'' = Inr PNone
   \<and> AutonomousTaskPlanner_run_agent_with rejecting_agents ''collector''
       = Inr (PDict [(''status'', PStr ''success'')])"
proof -
  have h1: "planner_outcome rejecting_agents
              = Inr (error_result (ExternalError ''no feasible schedule''))"
    by (simp add: planner_outcome_def rejecting_agents_def exn_bind_def)
  have h2: "\<not> truthy (dict_get (error_result (ExternalError ''no feasible schedule''))
                 ''plan_approved'' PNone)"
    by (simp add: error_result_def dict_get_def)
  have c: "collector_execute rejecting_agents = Inr [(''status'', PStr ''success'')]"
    by (simp add: rejecting_agents_def)
  show ?thesis
    using h1 h2 run_agent_executor_returns_none [OF h1 h2]
    by (simp add: c exn_bind_def)
qed

text \<open>
  Claim C4. In a run of the full workflow, for any behaviour of the agents: if the
  collector does not return a result with status \<open>success\<close>, the collector's is the only
  \<open>execute\<close> called; if the planner does not return a result with status \<open>success\<close>, or
  its result has no true \<open>plan_approved\<close>, the executor is not called; and whenever the
  executor is called, the collector and the planner both reported \<open>success\<close>, the plan is
  approved, and the executor is given the planner's \<open>final_plan\<close>.
\<close>

theorem workflow_gates_downstream:
  "(outcome_item (collector_execute ags) ''status'' \<noteq> Inr (PStr ''success'') \<longrightarrow>
      snd (AutonomousTaskPlanner_run_full_workflow_with ags now) = [CollectorCall])
   \<and> (outcome_item (planner_outcome ags) ''status'' \<noteq> Inr (PStr ''success'') \<longrightarrow>
       ExecutorCall p \<notin> set (snd (AutonomousTaskPlanner_run_full_workflow_with ags now)))
   \<and> (\<not> outcome_approved (planner_outcome ags) \<longrightarrow>
       ExecutorCall p \<notin> set (snd (AutonomousTaskPlanner_run_full_workflow_with ags now)))
   \<and> (ExecutorCall p \<in> set (snd (AutonomousTaskPlanner_run_full_workflow_with ags now)) \<longrightarrow>
       outcome_item (collector_execute ags) ''status'' = Inr (PStr ''success'')
       \<and> outcome_item (planner_outcome ags) ''status'' = Inr (PStr ''success'')
       \<and> outcome_approved (planner_outcome ags)
       \<and> outcome_item (planner_outcome ags) ''final_plan'' = Inr p)"
  by (auto simp add: AutonomousTaskPlanner_run_full_workflow_with_def Let_def
        outcome_item_def planner_outcome_def outcome_approved_def exn_bind_def
        dict_getitem_def dict_get_def split: sum.splits option.splits if_splits)

text \<open>
  A failed collector stops the run after one call; a planner that returns an error keeps
  the executor out; an approving planner has its final plan executed.
\<close>

theorem workflow_gates_downstream_witness:
  "snd (AutonomousTaskPlanner_run_full_workflow_with halted_agents ''t'') = [CollectorCall]
   \<and> ExecutorCall approved_example_plan
        \<notin> set (snd (AutonomousTaskPlanner_run_full_workflow_with rejecting_agents ''t''))
   \<and> ExecutorCall approved_example_plan
        \<in> set (snd (AutonomousTaskPlanner_run_full_workflow_with approving_agents ''t''))
   \<and> outcome_item (planner_outcome approving_agents) ''final_plan'' = Inr approved_example_plan"
proof -
  have a: "outcome_item (collector_execute halted_agents) ''status'' \<noteq> Inr (PStr ''success'')"
    by (simp add: halted_agents_def error_result_def outcome_item_def exn_bind_def
          dict_getitem_def)
  have b: "outcome_item (planner_outcome rejecting_agents) ''status'' \<noteq> Inr (PStr ''success'')"
    by (simp add: rejecting_agents_def error_result_def outcome_item_def planner_outcome_def
          exn_bind_def dict_getitem_def)
  have c: "ExecutorCall approved_example_plan
        \<in> set (snd (AutonomousTaskPlanner_run_full_workflow_with approving_agents ''t''))"
    by (simp add: AutonomousTaskPlanner_run_full_workflow_with_def approving_agents_def
          dict_getitem_def Let_def)
  have w1: "snd (AutonomousTaskPlanner_run_full_workflow_with halted_agents ''t'')
            = [CollectorCall]"
    using a workflow_gates_downstream [of halted_agents "''t''" approved_example_plan]
    by blast
  have w2: "ExecutorCall approved_example_plan
        \<notin> set (snd (AutonomousTaskPlanner_run_full_workflow_with rejecting_agents ''t''))"
    using b workflow_gates_downstream [of rejecting_agents "''t''" approved_example_plan]
    by blast
  have w3: "outcome_item (planner_outcome approving_agents) ''final_plan''
            = Inr approved_example_plan"
    using c workflow_gates_downstream [of approving_agents "''t''" approved_example_plan]
    by blast
  from w1 w2 c w3 show ?thesis by blast
qed

section \<open>The agents as the module defines them\<close>

text \<open>
  With the steps the classes define, the only exceptions that leave \<open>execute\<close> are those
  the model client or the weather request raise outside \<open>Exception\<close>; otherwise each agent
  reports \<open>success\<close>, whether or not its calls of the model failed.
\<close>

lemma collector_report:
  "(\<exists>r. CollectorAgent_execute self w clk = Inr ((''status'', PStr ''success'') # r))
   \<or> (\<exists>e. CollectorAgent_execute self w clk = Inl e \<and> \<not> is_Exception e)"
  by (auto simp add: CollectorAgent_execute_def CollectorAgent_execute_with_def
        CollectorAgent_execute_body_def CollectorAgent_methods_def exn_bind_def try_except_def
        CollectorAgent_fetch_weather_data_def CollectorAgent_structure_data_def
        split: sum.splits option.splits)

lemma reviewer_report:
  "(\<exists>r. ReviewerLearnerAgent_execute self clk = Inr ((''status'', PStr ''success'') # r))
   \<or> (\<exists>e. ReviewerLearnerAgent_execute self clk = Inl e \<and> \<not> is_Exception e)"
  by (auto simp add: ReviewerLearnerAgent_execute_def ReviewerLearnerAgent_execute_with_def
        ReviewerLearnerAgent_execute_body_def ReviewerLearnerAgent_methods_def exn_bind_def
        try_except_def ReviewerLearnerAgent_analyze_patterns_def
        ReviewerLearnerAgent_generate_rules_def ReviewerLearnerAgent_generate_feedback_def
        split: sum.splits)

lemma planner_approves_failed_draft:
  "pl_gemini_client self (PlanningPrompt i) = Inl e \<Longrightarrow> is_Exception e \<Longrightarrow>
   outcome_item (PlannerAgent_execute self clk i) ''plan_approved'' = Inr (PBool True)"
  by (simp add: planner_report draft_plan_cases exn_bind_def outcome_item_def dict_getitem_def)


end
